theory Spec2Isabelle
  imports Complex_Main "HOL-Library.Multiset"
begin

section \<open>PrintFilterData: gathering, reordering and printing filter data\<close>

text \<open>
  A shallow embedding of \<^verbatim>\<open>src/ufo/filters/PrintFilterData.cc\<close>. C++ \<^verbatim>\<open>int\<close> values are
  modelled as \<open>int\<close>, vector sizes as \<open>nat\<close>; the narrowing of the original row
  numbers from \<^verbatim>\<open>std::size_t\<close> to \<^verbatim>\<open>int\<close> is written out.
  A read past the end of a vector, which is undefined behaviour in C++, is the error
  value \<open>OutOfBounds\<close>; an integer division by zero is \<open>DivisionByZero\<close>; the two
  exceptions the file throws are \<open>BadValue\<close> and \<open>BadParameter\<close>; \<open>BadGet\<close> is
  \<^verbatim>\<open>boost::bad_get\<close> and \<open>LengthError\<close> a \<^verbatim>\<open>std::string\<close> of negative length.
\<close>

subsection \<open>Errors and checked vector access\<close>

datatype error = BadValue | BadParameter | OutOfBounds | DivisionByZero | BadGet | LengthError

definition vec_at :: "'a list \<Rightarrow> int \<Rightarrow> error + 'a" where
  "vec_at xs i = (if 0 \<le> i \<and> i < int (length xs) then Inr (xs ! nat i) else Inl OutOfBounds)"

text \<open>
  The narrowing of a \<^verbatim>\<open>std::size_t\<close> to a 32-bit \<^verbatim>\<open>int\<close>, as in
  \<^verbatim>\<open>std::vector<int> globalIndex(index.begin(), index.end())\<close>: the value modulo
  \<open>2^32\<close>, read as a signed number.
\<close>

definition size_t_to_int :: "nat \<Rightarrow> int" where
  "size_t_to_int n =
     (let m = int n mod 2 ^ 32 in if m < 2 ^ 31 then m else m - 2 ^ 32)"

subsection \<open>Stream output of integers and strings\<close>

text \<open>\<^verbatim>\<open>os << n\<close> for an \<^verbatim>\<open>int\<close>: decimal digits, with a leading minus sign.\<close>

definition digit_char :: "nat \<Rightarrow> char" where
  "digit_char d = ''0123456789'' ! d"

function show_nat :: "nat \<Rightarrow> string" where
  "show_nat n = (if n < 10 then [digit_char n] else show_nat (n div 10) @ [digit_char (n mod 10)])"
  by pat_completeness auto
termination
  by (relation "measure id") auto

definition show_int :: "int \<Rightarrow> string" where
  "show_int i = (if i < 0 then CHR ''-'' # show_nat (nat (- i)) else show_nat (nat i))"

text \<open>\<^verbatim>\<open>os << std::right << std::setw(w) << s\<close>: pad on the left with blanks up to width
  \<open>w\<close>; a text longer than \<open>w\<close> is not truncated.\<close>

definition setw_right :: "int \<Rightarrow> string \<Rightarrow> string" where
  "setw_right w s = replicate (nat (w - int (length s))) CHR '' '' @ s"

subsection \<open>Variables and display keys\<close>

text \<open>
  The class \<^verbatim>\<open>Variable\<close> is declared outside the file; the methods the file calls are the
  fields of a record: \<open>variable v i\<close> is \<^verbatim>\<open>v.variable(i)\<close>, \<open>var_size v\<close> is
  \<^verbatim>\<open>v.size()\<close>.
\<close>

record Variable =
  group :: string
  variable :: "nat \<Rightarrow> string"
  channels :: "int list"
  var_size :: nat
  fullName :: string

definition getVariableNameAtLevel :: "string \<Rightarrow> int \<Rightarrow> string" where
  "getVariableNameAtLevel varname level = varname @ '' (level '' @ show_int level @ '')''"

definition getVariableNameWithChannel :: "Variable \<Rightarrow> nat \<Rightarrow> string" where
  "getVariableNameWithChannel v channel = group v @ ''/'' @ variable v channel"

definition isMultiLevelData :: "Variable \<Rightarrow> bool" where
  "isMultiLevelData v =
     (let groupName = group v
      in groupName = ''GeoVaLs'' \<or> groupName = ''ObsDiag'' \<or> groupName = ''ObsBiasTerm'')"

subsection \<open>Configuration\<close>

text \<open>
  The options of \<^verbatim>\<open>PrintFilterDataParameters\<close> that the file reads. A
  \<^verbatim>\<open>VariablePrintParameters\<close> holds a variable and its set of levels; \<open>levels\<close> lists
  the elements of that \<^verbatim>\<open>std::set<int>\<close> in the ascending order in which it is iterated.
\<close>

record VariablePrintParameters =
  variable_p :: Variable
  levels :: "int list"

record Parameters =
  locmin :: int
  locmax :: int
  columnWidth :: int
  maxTextWidth :: int
  floatPrecision :: int
  scientificNotation :: bool
  printRank0 :: bool
  summary :: bool
  message :: "string option"
  variables :: "VariablePrintParameters list"

subsection \<open>Row bounds and page width (printAllData, lines 237--246)\<close>

definition printAllData_locmin :: "Parameters \<Rightarrow> nat \<Rightarrow> int" where
  "printAllData_locmin params nlocs =
     (if locmin params \<ge> int nlocs then int nlocs - 1 else locmin params)"

definition printAllData_locmax :: "Parameters \<Rightarrow> nat \<Rightarrow> int" where
  "printAllData_locmax params nlocs =
     (if locmax params = 0 then int nlocs else locmax params)"

text \<open>C++ division of two \<^verbatim>\<open>int\<close>s truncates towards zero and is undefined for a zero
  divisor.\<close>

definition cpp_div :: "int \<Rightarrow> int \<Rightarrow> error + int" where
  "cpp_div a b =
     (if b = 0 then Inl DivisionByZero else Inr (sgn a * sgn b * (\<bar>a\<bar> div \<bar>b\<bar>)))"

definition nlocsPerRow :: "Parameters \<Rightarrow> int \<Rightarrow> error + int" where
  "nlocsPerRow params maxVariableNameLength =
     (case cpp_div (maxTextWidth params - maxVariableNameLength) (columnWidth params + 3) of
        Inl e \<Rightarrow> Inl e
      | Inr q \<Rightarrow> Inr (max q 1))"

subsection \<open>Sorting the gathered indices (printAllData, lines 271--283)\<close>

text \<open>
  \<^verbatim>\<open>std::stable_sort\<close> with a comparator \<open>lt\<close>: elements are inserted from the right, each
  one in front of the first element that is not smaller than it, so that elements the
  comparator does not separate keep their order. Every stable sort returns this list.
\<close>

fun insert_stable :: "('a \<Rightarrow> 'a \<Rightarrow> bool) \<Rightarrow> 'a \<Rightarrow> 'a list \<Rightarrow> 'a list" where
  "insert_stable lt x [] = [x]"
| "insert_stable lt x (y # ys) =
     (if lt y x then y # insert_stable lt x ys else x # y # ys)"

definition stable_sort :: "('a \<Rightarrow> 'a \<Rightarrow> bool) \<Rightarrow> 'a list \<Rightarrow> 'a list" where
  "stable_sort lt xs = foldr (insert_stable lt) xs []"

text \<open>\<^verbatim>\<open>std::iota\<close> over \<open>nlocs\<close> entries, then the stable sort by
  \<^verbatim>\<open>globalIndex[idx1] < globalIndex[idx2]\<close>. The comparator reads \<open>globalIndex\<close> at
  the positions below \<open>nlocs\<close>; when the vector is shorter than that, the loop that
  follows the sort reads the same positions and yields \<open>OutOfBounds\<close>.\<close>

definition sortIndices :: "int list \<Rightarrow> nat \<Rightarrow> int list" where
  "sortIndices globalIndex nlocs =
     stable_sort (\<lambda>idx1 idx2. globalIndex ! nat idx1 < globalIndex ! nat idx2)
       (map int [0..<nlocs])"

text \<open>The loop \<^verbatim>\<open>permutedGlobalIndex[idx] = globalIndex[sortIndices[idx]]\<close>, over the positions
  \<open>idx\<close> still to visit.\<close>

fun permutedGlobalIndex :: "int list \<Rightarrow> int list \<Rightarrow> nat list \<Rightarrow> error + int list" where
  "permutedGlobalIndex globalIndex sortIdx [] = Inr []"
| "permutedGlobalIndex globalIndex sortIdx (idx # rest) =
     (case vec_at sortIdx (int idx) of
        Inl e \<Rightarrow> Inl e
      | Inr p \<Rightarrow>
         (case vec_at globalIndex p of
            Inl e \<Rightarrow> Inl e
          | Inr g \<Rightarrow>
             (case permutedGlobalIndex globalIndex sortIdx rest of
                Inl e \<Rightarrow> Inl e
              | Inr gs \<Rightarrow> Inr (g # gs))))"

subsection \<open>Selecting the rows to print (printAllData, lines 287--300)\<close>

text \<open>
  The loop over \<open>idx\<close>, with \<open>locsToPrint\<close> and \<open>indicesToPrint\<close> as the accumulator.
  The conjunction is evaluated left to right and stops at the first false operand, so
  \<^verbatim>\<open>globalApply[sortIndices[loc]]\<close> is read only for a row inside the bounds.
\<close>

fun select_loop ::
  "int \<Rightarrow> int \<Rightarrow> int list \<Rightarrow> int list \<Rightarrow> int list \<Rightarrow> nat list \<Rightarrow> int list \<times> int list
    \<Rightarrow> error + (int list \<times> int list)" where
  "select_loop lmin lmax globalApply sortIdx permuted [] acc = Inr acc"
| "select_loop lmin lmax globalApply sortIdx permuted (idx # rest) (locsToPrint, indicesToPrint) =
     (case vec_at permuted (int idx) of
        Inl e \<Rightarrow> Inl e
      | Inr loc \<Rightarrow>
         if loc \<ge> lmin \<and> loc < lmax then
           (case vec_at sortIdx loc of
              Inl e \<Rightarrow> Inl e
            | Inr p \<Rightarrow>
               (case vec_at globalApply p of
                  Inl e \<Rightarrow> Inl e
                | Inr a \<Rightarrow>
                   if a \<noteq> 0
                   then select_loop lmin lmax globalApply sortIdx permuted rest
                          (locsToPrint @ [loc], indicesToPrint @ [p])
                   else select_loop lmin lmax globalApply sortIdx permuted rest
                          (locsToPrint, indicesToPrint)))
         else select_loop lmin lmax globalApply sortIdx permuted rest
                (locsToPrint, indicesToPrint))"

text \<open>Lines 271--300 together: from the gathered mask and index to the rows to print.\<close>

definition selectLocs ::
  "int \<Rightarrow> int \<Rightarrow> nat \<Rightarrow> int list \<Rightarrow> int list \<Rightarrow> error + (int list \<times> int list)" where
  "selectLocs lmin lmax nlocs globalApply globalIndex =
     (let sortIdx = sortIndices globalIndex nlocs
      in case permutedGlobalIndex globalIndex sortIdx [0..<nlocs] of
           Inl e \<Rightarrow> Inl e
         | Inr permuted \<Rightarrow>
             select_loop lmin lmax globalApply sortIdx permuted [0..<nlocs] ([], []))"

subsection \<open>Grouping the rows into table rows (printAllData, lines 308--321)\<close>

text \<open>\<^verbatim>\<open>rows.back().push_back(x)\<close>; \<^verbatim>\<open>back()\<close> of an empty vector is undefined.\<close>

fun push_back_last :: "'a list list \<Rightarrow> 'a \<Rightarrow> error + 'a list list" where
  "push_back_last [] x = Inl OutOfBounds"
| "push_back_last (r # rs) x = Inr (butlast (r # rs) @ [last (r # rs) @ [x]])"

fun paginate_loop ::
  "int \<Rightarrow> int list \<Rightarrow> int list \<Rightarrow> nat list \<Rightarrow> int list list \<times> int list list \<times> int
    \<Rightarrow> error + (int list list \<times> int list list)" where
  "paginate_loop n locsToPrint indicesToPrint [] (rowOfLocs, rowOfIndices, cnt) =
     Inr (rowOfLocs, rowOfIndices)"
| "paginate_loop n locsToPrint indicesToPrint (i # rest) (rowOfLocs, rowOfIndices, cnt) =
     (case vec_at indicesToPrint (int i) of
        Inl e \<Rightarrow> Inl e
      | Inr idx \<Rightarrow>
         (case vec_at locsToPrint (int i) of
            Inl e \<Rightarrow> Inl e
          | Inr loc \<Rightarrow>
             if n = 0 then Inl DivisionByZero
             else
               (let rl = (if cnt mod n = 0 then rowOfLocs @ [[]] else rowOfLocs);
                    ri = (if cnt mod n = 0 then rowOfIndices @ [[]] else rowOfIndices)
                in case push_back_last rl loc of
                     Inl e \<Rightarrow> Inl e
                   | Inr rl' \<Rightarrow>
                      (case push_back_last ri idx of
                         Inl e \<Rightarrow> Inl e
                       | Inr ri' \<Rightarrow>
                           paginate_loop n locsToPrint indicesToPrint rest
                             (rl', ri', cnt + 1)))))"

definition paginate ::
  "int \<Rightarrow> int list \<Rightarrow> int list \<Rightarrow> error + (int list list \<times> int list list)" where
  "paginate n locsToPrint indicesToPrint =
     paginate_loop n locsToPrint indicesToPrint [0..<length locsToPrint] ([], [], 0)"

subsection \<open>The observation space, the filter data and the output stream\<close>

text \<open>
  What the file consumes from its collaborators is a record of functions. For each element
  type \<open>'v\<close> there is a set of overloads: \<open>data_get\<close> is \<^verbatim>\<open>data_.get(variable, ...)\<close>
  followed by \<^verbatim>\<open>variableData[0]\<close>, \<open>get_db\<close> is \<^verbatim>\<open>obsdb_.get_db(group, name, ...)\<close> with
  \<open>None\<close> when the call throws, and \<open>allGatherv\<close> is the collective
  \<^verbatim>\<open>obsdb_.distribution()->allGatherv\<close>. Floating-point numbers and date-times are the
  type parameters \<open>'f\<close> and \<open>'d\<close>; their missing values and their stream output are
  fields of the record too. The missing value of \<^verbatim>\<open>float\<close> is an ordinary number, so
  \<^verbatim>\<open>value == missing\<close> is equality of the two values.
\<close>

datatype ObsDtype = Integer | Float | String | DateTime | Bool | Other

datatype ('f, 'd) column =
  IntCol "int list" | FloatCol "'f list" | StringCol "string list" | DateTimeCol "'d list"

record 'v accessors =
  data_get :: "Variable \<Rightarrow> 'v list"
  get_db :: "string \<Rightarrow> string \<Rightarrow> 'v list option"
  allGatherv :: "'v list \<Rightarrow> 'v list"

record ('f, 'd) ObsEnv =
  has :: "Variable \<Rightarrow> bool"
  dtype :: "Variable \<Rightarrow> ObsDtype"
  nlevs :: "Variable \<Rightarrow> int"
  get_level :: "Variable \<Rightarrow> int \<Rightarrow> 'f list"
  ints :: "int accessors"
  floats :: "'f accessors"
  strings :: "string accessors"
  datetimes :: "'d accessors"
  bools :: "bool accessors"
  globalNumLocs :: nat
  index :: "nat list"
  rank :: nat
  processWhere :: "bool list"
  data_summary :: string
  missing_int :: int
  missing_float :: 'f
  missing_string :: string
  missing_datetime :: 'd
  show_float :: "bool \<Rightarrow> int \<Rightarrow> 'f \<Rightarrow> string"
  show_datetime :: "'d \<Rightarrow> string"

text \<open>
  The state the filter changes: the text written to \<^verbatim>\<open>os_\<close>, the map \<^verbatim>\<open>filterData_\<close>, and
  the sequence of collective calls made so far, each one labelled with the column that
  was gathered.
\<close>

datatype gather_call = GatherColumn string | GatherApply | GatherIndex

record ('f, 'd) world =
  os :: string
  gathers :: "gather_call list"
  filterData :: "string \<rightharpoonup> ('f, 'd) column"

definition endl :: string where
  "endl = [CHR 0x0A]"

definition not_present :: "string \<Rightarrow> string" where
  "not_present name = name @ '' not present in filter data'' @ endl"

subsection \<open>getData\<close>

text \<open>
  The channel loop of \<^verbatim>\<open>getData\<close>, over the channel positions still to visit. A fetch
  that throws is caught: the note is written and \<^verbatim>\<open>continue\<close> skips the gather and the
  assignment to \<^verbatim>\<open>filterData_\<close>. The text of the template and of the overload for
  \<^verbatim>\<open>bool\<close> is the same except for the conversion \<open>conv\<close> of the fetched vector.
\<close>

fun getData_channels ::
  "('v list \<Rightarrow> ('f, 'd) column) \<Rightarrow> ('u list \<Rightarrow> 'v list) \<Rightarrow> 'u accessors \<Rightarrow> ('v list \<Rightarrow> 'v list)
    \<Rightarrow> Variable \<Rightarrow> nat list \<Rightarrow> ('f, 'd) world \<Rightarrow> ('f, 'd) world" where
  "getData_channels wrap conv acc gather v [] w = w"
| "getData_channels wrap conv acc gather v (ich # rest) w =
     (case get_db acc (group v) (variable v ich) of
        None \<Rightarrow>
          getData_channels wrap conv acc gather v rest
            (w\<lparr>os := os w @ not_present (getVariableNameWithChannel v ich)\<rparr>)
      | Some variableData \<Rightarrow>
          getData_channels wrap conv acc gather v rest
            (w\<lparr>gathers := gathers w @ [GatherColumn (getVariableNameWithChannel v ich)],
               filterData := (filterData w)
                 (getVariableNameWithChannel v ich \<mapsto> wrap (gather (conv variableData)))\<rparr>))"

definition getData_gen ::
  "('v list \<Rightarrow> ('f, 'd) column) \<Rightarrow> ('u list \<Rightarrow> 'v list) \<Rightarrow> 'u accessors \<Rightarrow> ('v list \<Rightarrow> 'v list)
    \<Rightarrow> Variable \<Rightarrow> ('f, 'd) world \<Rightarrow> ('f, 'd) world" where
  "getData_gen wrap conv acc gather v w =
     (if length (channels v) = 0
      then w\<lparr>gathers := gathers w @ [GatherColumn (getVariableNameWithChannel v 0)],
             filterData := (filterData w)
               (getVariableNameWithChannel v 0 \<mapsto> wrap (gather (conv (data_get acc v))))\<rparr>
      else getData_channels wrap conv acc gather v [0..<var_size v] w)"

text \<open>The template \<^verbatim>\<open>getData<VariableType>\<close> and the overload for \<^verbatim>\<open>bool\<close>, which gathers
  and stores the flags as \<^verbatim>\<open>int\<close>.\<close>

definition getData ::
  "('v list \<Rightarrow> ('f, 'd) column) \<Rightarrow> 'v accessors \<Rightarrow> Variable \<Rightarrow> ('f, 'd) world \<Rightarrow> ('f, 'd) world" where
  "getData wrap acc v w = getData_gen wrap (\<lambda>xs. xs) acc (allGatherv acc) v w"

definition bool_to_int :: "bool \<Rightarrow> int" where
  "bool_to_int b = (if b then 1 else 0)"

definition getData_bool ::
  "('f, 'd) ObsEnv \<Rightarrow> Variable \<Rightarrow> ('f, 'd) world \<Rightarrow> ('f, 'd) world" where
  "getData_bool env v w =
     getData_gen IntCol (map bool_to_int) (bools env) (allGatherv (ints env)) v w"

fun getMultiLevelData ::
  "('f, 'd) ObsEnv \<Rightarrow> Variable \<Rightarrow> int list \<Rightarrow> ('f, 'd) world \<Rightarrow> ('f, 'd) world" where
  "getMultiLevelData env v [] w = w"
| "getMultiLevelData env v (level # rest) w =
     (let MultiLevelVariableName = getVariableNameAtLevel (fullName v) level
      in if level < 0 \<or> level \<ge> nlevs env v
         then getMultiLevelData env v rest
                (w\<lparr>os := os w @ not_present MultiLevelVariableName\<rparr>)
         else getMultiLevelData env v rest
                (w\<lparr>gathers := gathers w @ [GatherColumn MultiLevelVariableName],
                   filterData := (filterData w)
                     (MultiLevelVariableName \<mapsto>
                        FloatCol (allGatherv (floats env) (get_level env v level)))\<rparr>))"

subsection \<open>getAllData\<close>

text \<open>An effectful function returns the error it threw, if any, and the state it left.\<close>

fun getAllData_loop ::
  "('f, 'd) ObsEnv \<Rightarrow> VariablePrintParameters list \<Rightarrow> ('f, 'd) world
    \<Rightarrow> error option \<times> ('f, 'd) world" where
  "getAllData_loop env [] w = (None, w)"
| "getAllData_loop env (variableParams # rest) w =
     (let v = variable_p variableParams
      in if has env v then
           (case dtype env v of
              Integer \<Rightarrow> getAllData_loop env rest (getData IntCol (ints env) v w)
            | Float \<Rightarrow>
                (if isMultiLevelData v
                 then getAllData_loop env rest (getMultiLevelData env v (levels variableParams) w)
                 else getAllData_loop env rest (getData FloatCol (floats env) v w))
            | String \<Rightarrow> getAllData_loop env rest (getData StringCol (strings env) v w)
            | DateTime \<Rightarrow> getAllData_loop env rest (getData DateTimeCol (datetimes env) v w)
            | Bool \<Rightarrow> getAllData_loop env rest (getData_bool env v w)
            | Other \<Rightarrow> (Some BadParameter, w))
         else getAllData_loop env rest (w\<lparr>os := os w @ not_present (fullName v)\<rparr>))"

definition getAllData ::
  "Parameters \<Rightarrow> ('f, 'd) ObsEnv \<Rightarrow> ('f, 'd) world \<Rightarrow> error option \<times> ('f, 'd) world" where
  "getAllData params env w = getAllData_loop env (variables params) w"

subsection \<open>getMaxVariableNameLength\<close>

definition longer :: "string \<Rightarrow> int \<Rightarrow> int" where
  "longer name maxVariableNameLength =
     (if int (length name) > maxVariableNameLength then int (length name)
      else maxVariableNameLength)"

definition getMaxVariableNameLength :: "Parameters \<Rightarrow> ('f, 'd) world \<Rightarrow> int" where
  "getMaxVariableNameLength params w =
     fold (\<lambda>variableParams m.
        let v = variable_p variableParams
        in if isMultiLevelData v then
             fold (\<lambda>level m.
                let MultiLevelVariableName = getVariableNameAtLevel (fullName v) level
                in if filterData w MultiLevelVariableName = None then m
                   else longer MultiLevelVariableName m)
               (levels variableParams) m
           else if length (channels v) = 0 then longer (fullName v) m
           else fold (\<lambda>ich m. longer (getVariableNameWithChannel v ich) m) [0..<var_size v] m)
       (variables params) (int (length ''Location''))"

subsection \<open>printVariable\<close>

text \<open>\<^verbatim>\<open>boost::get<std::vector<T>>\<close> on the variant stored in \<^verbatim>\<open>filterData_\<close>.\<close>

fun get_int :: "('f, 'd) column \<Rightarrow> int list option" where
  "get_int (IntCol xs) = Some xs"
| "get_int c = None"

fun get_float :: "('f, 'd) column \<Rightarrow> 'f list option" where
  "get_float (FloatCol xs) = Some xs"
| "get_float c = None"

fun get_string :: "('f, 'd) column \<Rightarrow> string list option" where
  "get_string (StringCol xs) = Some xs"
| "get_string c = None"

fun get_datetime :: "('f, 'd) column \<Rightarrow> 'd list option" where
  "get_datetime (DateTimeCol xs) = Some xs"
| "get_datetime c = None"

text \<open>\<^verbatim>\<open>filterData_[varname]\<close>: a key that is absent is inserted with an empty vector.\<close>

definition lookup_or_insert ::
  "string \<Rightarrow> ('f, 'd) world \<Rightarrow> ('f, 'd) column \<times> ('f, 'd) world" where
  "lookup_or_insert varname w =
     (case filterData w varname of
        None \<Rightarrow> (IntCol [], w\<lparr>filterData := (filterData w)(varname \<mapsto> IntCol [])\<rparr>)
      | Some c \<Rightarrow> (c, w))"

text \<open>
  The template \<^verbatim>\<open>printVariable<VariableType>\<close>. \<open>get_vec\<close> selects the vector type,
  \<open>missing\<close> is \<^verbatim>\<open>util::missingValue<VariableType>()\<close> and \<open>shows\<close> is the stream
  output of a value under the notation and precision that the function sets.
\<close>

definition printVariable ::
  "(('f, 'd) column \<Rightarrow> 'v list option) \<Rightarrow> 'v \<Rightarrow> ('v \<Rightarrow> string) \<Rightarrow> Parameters \<Rightarrow> string \<Rightarrow> int
    \<Rightarrow> ('f, 'd) world \<Rightarrow> error option \<times> ('f, 'd) world" where
  "printVariable get_vec missing shows params varname loc w =
     (case lookup_or_insert varname w of (c, w1) \<Rightarrow>
        (case get_vec c of
           None \<Rightarrow> (Some BadGet, w1)
         | Some vec \<Rightarrow>
            (case vec_at vec loc of
               Inl e \<Rightarrow> (Some e, w1)
             | Inr val \<Rightarrow>
                 if val = missing
                 then (None, w1\<lparr>os := os w1 @ setw_right (columnWidth params) ''missing''\<rparr>)
                 else (None, w1\<lparr>os := os w1 @ setw_right (columnWidth params) (shows val)\<rparr>))))"

definition printVariable_bool ::
  "Parameters \<Rightarrow> string \<Rightarrow> int \<Rightarrow> ('f, 'd) world \<Rightarrow> error option \<times> ('f, 'd) world" where
  "printVariable_bool params varname loc w =
     (case lookup_or_insert varname w of (c, w1) \<Rightarrow>
        (case get_int c of
           None \<Rightarrow> (Some BadGet, w1)
         | Some vec \<Rightarrow>
            (case vec_at vec loc of
               Inl e \<Rightarrow> (Some e, w1)
             | Inr val \<Rightarrow>
                 (None, w1\<lparr>os := os w1 @ setw_right (columnWidth params) (show_int val)\<rparr>))))"

definition printVariable_float ::
  "('f, 'd) ObsEnv \<Rightarrow> Parameters \<Rightarrow> string \<Rightarrow> int \<Rightarrow> ('f, 'd) world
    \<Rightarrow> error option \<times> ('f, 'd) world" where
  "printVariable_float env params varname loc w =
     printVariable get_float (missing_float env)
       (show_float env (scientificNotation params) (floatPrecision params)) params varname loc w"

text \<open>The \<^verbatim>\<open>switch\<close> on the element type inside the table (lines 368--386).\<close>

definition printVariable_dtype ::
  "('f, 'd) ObsEnv \<Rightarrow> Parameters \<Rightarrow> Variable \<Rightarrow> string \<Rightarrow> int \<Rightarrow> ('f, 'd) world
    \<Rightarrow> error option \<times> ('f, 'd) world" where
  "printVariable_dtype env params v varname idx w =
     (case dtype env v of
        Integer \<Rightarrow> printVariable get_int (missing_int env) show_int params varname idx w
      | Float \<Rightarrow> printVariable_float env params varname idx w
      | String \<Rightarrow> printVariable get_string (missing_string env) (\<lambda>s. s) params varname idx w
      | DateTime \<Rightarrow>
          printVariable get_datetime (missing_datetime env) (show_datetime env) params varname idx w
      | Bool \<Rightarrow> printVariable_bool params varname idx w
      | Other \<Rightarrow> (None, w))"

subsection \<open>Printing the table (printAllData, lines 329--394)\<close>

fun print_cells ::
  "(int \<Rightarrow> ('f, 'd) world \<Rightarrow> error option \<times> ('f, 'd) world) \<Rightarrow> int list \<Rightarrow> ('f, 'd) world
    \<Rightarrow> error option \<times> ('f, 'd) world" where
  "print_cells pv [] w = (None, w)"
| "print_cells pv (idx # rest) w =
     (case pv idx w of
        (Some e, w1) \<Rightarrow> (Some e, w1)
      | (None, w1) \<Rightarrow> print_cells pv rest (w1\<lparr>os := os w1 @ '' | ''\<rparr>))"

fun print_levels ::
  "('f, 'd) ObsEnv \<Rightarrow> Parameters \<Rightarrow> int \<Rightarrow> Variable \<Rightarrow> int list \<Rightarrow> int list \<Rightarrow> ('f, 'd) world
    \<Rightarrow> error option \<times> ('f, 'd) world" where
  "print_levels env params maxVariableNameLength v [] idxGroup w = (None, w)"
| "print_levels env params maxVariableNameLength v (level # rest) idxGroup w =
     (let MultiLevelVariableName = getVariableNameAtLevel (fullName v) level
      in if filterData w MultiLevelVariableName = None
         then print_levels env params maxVariableNameLength v rest idxGroup w
         else
           (case print_cells (printVariable_float env params MultiLevelVariableName) idxGroup
                   (w\<lparr>os := os w @ setw_right maxVariableNameLength MultiLevelVariableName
                                @ '' | ''\<rparr>) of
              (Some e, w1) \<Rightarrow> (Some e, w1)
            | (None, w1) \<Rightarrow>
                print_levels env params maxVariableNameLength v rest idxGroup
                  (w1\<lparr>os := os w1 @ endl\<rparr>)))"

fun print_channels ::
  "('f, 'd) ObsEnv \<Rightarrow> Parameters \<Rightarrow> int \<Rightarrow> Variable \<Rightarrow> nat list \<Rightarrow> int list \<Rightarrow> ('f, 'd) world
    \<Rightarrow> error option \<times> ('f, 'd) world" where
  "print_channels env params maxVariableNameLength v [] idxGroup w = (None, w)"
| "print_channels env params maxVariableNameLength v (ich # rest) idxGroup w =
     (let varname = getVariableNameWithChannel v ich
      in if filterData w varname = None
         then print_channels env params maxVariableNameLength v rest idxGroup w
         else
           (case print_cells (printVariable_dtype env params v varname) idxGroup
                   (w\<lparr>os := os w @ setw_right maxVariableNameLength varname @ '' | ''\<rparr>) of
              (Some e, w1) \<Rightarrow> (Some e, w1)
            | (None, w1) \<Rightarrow>
                print_channels env params maxVariableNameLength v rest idxGroup
                  (w1\<lparr>os := os w1 @ endl\<rparr>)))"

fun print_variables ::
  "('f, 'd) ObsEnv \<Rightarrow> Parameters \<Rightarrow> int \<Rightarrow> VariablePrintParameters list \<Rightarrow> int list
    \<Rightarrow> ('f, 'd) world \<Rightarrow> error option \<times> ('f, 'd) world" where
  "print_variables env params maxVariableNameLength [] idxGroup w = (None, w)"
| "print_variables env params maxVariableNameLength (variableParams # rest) idxGroup w =
     (let v = variable_p variableParams
      in if \<not> has env v
         then print_variables env params maxVariableNameLength rest idxGroup w
         else
           (case (if isMultiLevelData v
                  then print_levels env params maxVariableNameLength v (levels variableParams)
                         idxGroup w
                  else print_channels env params maxVariableNameLength v [0..<var_size v]
                         idxGroup w) of
              (Some e, w1) \<Rightarrow> (Some e, w1)
            | (None, w1) \<Rightarrow>
                print_variables env params maxVariableNameLength rest idxGroup w1))"

text \<open>\<^verbatim>\<open>std::string(n, '-')\<close> with an \<^verbatim>\<open>int\<close> \<open>n\<close>: a negative length throws.\<close>

definition dashes :: "int \<Rightarrow> error + string" where
  "dashes n = (if n < 0 then Inl LengthError else Inr (replicate (nat n) CHR ''-''))"

text \<open>The header line and the division bar of one table row.\<close>

definition print_header ::
  "Parameters \<Rightarrow> int \<Rightarrow> int list \<Rightarrow> ('f, 'd) world \<Rightarrow> error option \<times> ('f, 'd) world" where
  "print_header params maxVariableNameLength locGroup w =
     (let w1 = w\<lparr>os := os w @ setw_right maxVariableNameLength ''Location'' @ '' | ''
                  @ concat (map (\<lambda>loc. setw_right (columnWidth params) (show_int loc) @ '' | '')
                              locGroup)
                  @ endl\<rparr>
      in case dashes maxVariableNameLength of
           Inl e \<Rightarrow> (Some e, w1)
         | Inr nameBar \<Rightarrow>
            (let w2 = w1\<lparr>os := os w1 @ nameBar @ ''-+-''\<rparr>
             in if locGroup = [] then (None, w2\<lparr>os := os w2 @ endl\<rparr>)
                else
                  (case dashes (columnWidth params) of
                     Inl e \<Rightarrow> (Some e, w2)
                   | Inr colBar \<Rightarrow>
                       (None, w2\<lparr>os := os w2 @ concat (map (\<lambda>loc. colBar @ ''-+-'') locGroup)
                                     @ endl\<rparr>))))"

fun print_rows ::
  "('f, 'd) ObsEnv \<Rightarrow> Parameters \<Rightarrow> int \<Rightarrow> int list list \<Rightarrow> int list list \<Rightarrow> nat list
    \<Rightarrow> ('f, 'd) world \<Rightarrow> error option \<times> ('f, 'd) world" where
  "print_rows env params maxVariableNameLength rowOfLocs rowOfIndices [] w = (None, w)"
| "print_rows env params maxVariableNameLength rowOfLocs rowOfIndices (i # rest) w =
     (case vec_at rowOfLocs (int i) of
        Inl e \<Rightarrow> (Some e, w)
      | Inr locGroup \<Rightarrow>
         (case vec_at rowOfIndices (int i) of
            Inl e \<Rightarrow> (Some e, w)
          | Inr idxGroup \<Rightarrow>
             (case print_header params maxVariableNameLength locGroup w of
                (Some e, w1) \<Rightarrow> (Some e, w1)
              | (None, w1) \<Rightarrow>
                 (case print_variables env params maxVariableNameLength (variables params)
                         idxGroup w1 of
                    (Some e, w2) \<Rightarrow> (Some e, w2)
                  | (None, w2) \<Rightarrow>
                      print_rows env params maxVariableNameLength rowOfLocs rowOfIndices rest
                        (w2\<lparr>os := os w2 @ endl\<rparr>)))))"

subsection \<open>printAllData and doFilter\<close>

text \<open>
  Lines 236--321 of \<^verbatim>\<open>printAllData\<close>: the bounds and their check, the page width, the two
  gathers, the selection and the grouping. The result is the error thrown or the longest
  name and the table rows, together with the state. The number of locations is taken to
  fit an \<^verbatim>\<open>int\<close>; the original row numbers are narrowed to \<^verbatim>\<open>int\<close> as the code does.
\<close>

definition printAllData_rows ::
  "Parameters \<Rightarrow> ('f, 'd) ObsEnv \<Rightarrow> ('f, 'd) world
    \<Rightarrow> (error + int \<times> int list list \<times> int list list) \<times> ('f, 'd) world" where
  "printAllData_rows params env w =
     (let maxVariableNameLength = getMaxVariableNameLength params w;
          nlocs = globalNumLocs env;
          lmin = printAllData_locmin params nlocs;
          lmax = printAllData_locmax params nlocs
      in if lmin > lmax then (Inl BadValue, w)
         else
           (case nlocsPerRow params maxVariableNameLength of
              Inl e \<Rightarrow> (Inl e, w)
            | Inr n \<Rightarrow>
               (let apply = map bool_to_int (processWhere env);
                    localApply = (if printRank0 params \<and> rank env \<noteq> 0
                                  then map (\<lambda>a. 0) apply else apply);
                    globalApply = allGatherv (ints env) localApply;
                    w1 = w\<lparr>gathers := gathers w @ [GatherApply]\<rparr>;
                    globalIndex = allGatherv (ints env) (map size_t_to_int (index env));
                    w2 = w1\<lparr>gathers := gathers w1 @ [GatherIndex]\<rparr>
                in case selectLocs lmin lmax nlocs globalApply globalIndex of
                     Inl e \<Rightarrow> (Inl e, w2)
                   | Inr (locsToPrint, indicesToPrint) \<Rightarrow>
                      (case paginate n locsToPrint indicesToPrint of
                         Inl e \<Rightarrow> (Inl e, w2)
                       | Inr (rowOfLocs, rowOfIndices) \<Rightarrow>
                           (Inr (maxVariableNameLength, rowOfLocs, rowOfIndices), w2)))))"

definition printAllData ::
  "Parameters \<Rightarrow> ('f, 'd) ObsEnv \<Rightarrow> ('f, 'd) world \<Rightarrow> error option \<times> ('f, 'd) world" where
  "printAllData params env w =
     (case printAllData_rows params env w of
        (Inl e, w1) \<Rightarrow> (Some e, w1)
      | (Inr (maxVariableNameLength, rowOfLocs, rowOfIndices), w1) \<Rightarrow>
          print_rows env params maxVariableNameLength rowOfLocs rowOfIndices
            [0..<length rowOfLocs] w1)"

text \<open>The welcome message, the optional message and the optional summary of
  \<^verbatim>\<open>doFilter\<close>.\<close>

definition doFilter_preamble ::
  "Parameters \<Rightarrow> ('f, 'd) ObsEnv \<Rightarrow> ('f, 'd) world \<Rightarrow> ('f, 'd) world" where
  "doFilter_preamble params env w =
     (let w1 = w\<lparr>os := os w @ endl
                  @ ''############################'' @ endl
                  @ ''### Printing filter data ###'' @ endl
                  @ ''############################'' @ endl
                  @ endl @ endl\<rparr>;
          w2 = (case message params of
                  None \<Rightarrow> w1
                | Some m \<Rightarrow> w1\<lparr>os := os w1 @ m @ endl @ endl\<rparr>)
      in if summary params then w2\<lparr>os := os w2 @ data_summary env\<rparr> else w2)"

definition doFilter ::
  "Parameters \<Rightarrow> ('f, 'd) ObsEnv \<Rightarrow> ('f, 'd) world \<Rightarrow> error option \<times> ('f, 'd) world" where
  "doFilter params env w =
     (case getAllData params env (doFilter_preamble params env w) of
        (Some e, w1) \<Rightarrow> (Some e, w1)
      | (None, w1) \<Rightarrow> printAllData params env w1)"

subsection \<open>Specification of the table rows\<close>

text \<open>
  The page size as the specification words it:
  \<open>max(1, floor((maxTextWidth - longestDisplayKeyLength) / (columnWidth + separatorOverhead)))\<close>
  with a separator overhead of 3, over the reals.
\<close>

definition spec_page_size :: "Parameters \<Rightarrow> int \<Rightarrow> int" where
  "spec_page_size params longestKey =
     max 1 \<lfloor>real_of_int (maxTextWidth params - longestKey) / real_of_int (columnWidth params + 3)\<rfloor>"

text \<open>Rows of a table with pages of size \<open>n\<close>: every row but the last has exactly \<open>n\<close>
  entries, the last one has between 1 and \<open>n\<close>.\<close>

definition rows_ok :: "int \<Rightarrow> 'a list list \<Rightarrow> bool" where
  "rows_ok n rows =
     (list_all (\<lambda>r. int (length r) = n) (butlast rows) \<and>
      (rows = [] \<or> (1 \<le> length (last rows) \<and> int (length (last rows)) \<le> n)))"

subsection \<open>Specification of a cell\<close>

text \<open>
  The text of a cell before padding, as the specification words it: a value equal to the
  missing value of its type is the text ``missing'', any other value is its stream
  output (for a floating-point number under the configured notation and precision), and
  a flag is the decimal text of its 0/1 integer, with no missing value. \<open>column_fits\<close>
  says which kind of column holds the data of which element type.
\<close>

fun column_fits :: "ObsDtype \<Rightarrow> ('f, 'd) column \<Rightarrow> bool" where
  "column_fits Integer (IntCol xs) = True"
| "column_fits Float (FloatCol xs) = True"
| "column_fits String (StringCol xs) = True"
| "column_fits DateTime (DateTimeCol xs) = True"
| "column_fits Bool (IntCol xs) = True"
| "column_fits t c = False"

fun column_length :: "('f, 'd) column \<Rightarrow> nat" where
  "column_length (IntCol xs) = length xs"
| "column_length (FloatCol xs) = length xs"
| "column_length (StringCol xs) = length xs"
| "column_length (DateTimeCol xs) = length xs"

fun spec_cell ::
  "('f, 'd) ObsEnv \<Rightarrow> Parameters \<Rightarrow> ObsDtype \<Rightarrow> ('f, 'd) column \<Rightarrow> nat \<Rightarrow> string" where
  "spec_cell env params Integer (IntCol xs) i =
     (if xs ! i = missing_int env then ''missing'' else show_int (xs ! i))"
| "spec_cell env params Float (FloatCol xs) i =
     (if xs ! i = missing_float env then ''missing''
      else show_float env (scientificNotation params) (floatPrecision params) (xs ! i))"
| "spec_cell env params String (StringCol xs) i =
     (if xs ! i = missing_string env then ''missing'' else xs ! i)"
| "spec_cell env params DateTime (DateTimeCol xs) i =
     (if xs ! i = missing_datetime env then ''missing'' else show_datetime env (xs ! i))"
| "spec_cell env params Bool (IntCol xs) i = show_int (xs ! i)"
| "spec_cell env params t c i = []"

text \<open>A configuration for the examples: 77 characters of text, columns of width 20.\<close>

definition example_params :: Parameters where
  "example_params =
     \<lparr>locmin = 0, locmax = 6, columnWidth = 20, maxTextWidth = 77, floatPrecision = 3,
      scientificNotation = False, printRank0 = False, summary = False, message = None,
      variables = []\<rparr>"

text \<open>
  An observation space for the examples, on a single worker (the gather returns its
  argument): two locations, the integer variable \<open>ObsValue/brightness\<close> with the channels
  1 and 2 of which only \<open>brightness_1\<close> is in the store, and a flag \<open>QC/ok\<close>.
\<close>

definition example_variable :: Variable where
  "example_variable =
     \<lparr>group = ''ObsValue'', variable = (\<lambda>i. ''brightness_'' @ show_nat (Suc i)),
      channels = [1, 2], var_size = 2, fullName = ''ObsValue/brightness''\<rparr>"

definition example_flag :: Variable where
  "example_flag =
     \<lparr>group = ''QC'', variable = (\<lambda>i. ''ok''), channels = [], var_size = 1,
      fullName = ''QC/ok''\<rparr>"

definition no_data :: "'v accessors" where
  "no_data = \<lparr>data_get = (\<lambda>v. []), get_db = (\<lambda>g n. None), allGatherv = (\<lambda>xs. xs)\<rparr>"

definition example_env :: "(real, int) ObsEnv" where
  "example_env =
     \<lparr>has = (\<lambda>v. True),
      dtype = (\<lambda>v. if group v = ''QC'' then Bool else Integer),
      nlevs = (\<lambda>v. 0),
      get_level = (\<lambda>v l. []),
      ints = \<lparr>data_get = (\<lambda>v. [7, 8]),
               get_db = (\<lambda>g n. if n = ''brightness_1'' then Some [250, 260] else None),
               allGatherv = (\<lambda>xs. xs)\<rparr>,
      floats = no_data, strings = no_data, datetimes = no_data,
      bools = \<lparr>data_get = (\<lambda>v. [True, False]), get_db = (\<lambda>g n. None),
                allGatherv = (\<lambda>xs. xs)\<rparr>,
      globalNumLocs = 2, index = [0, 1], rank = 0, processWhere = [True, True],
      data_summary = [], missing_int = - 2147483643, missing_float = - 1,
      missing_string = ''MISSING'', missing_datetime = 0,
      show_float = (\<lambda>sci prec x. ''x''), show_datetime = (\<lambda>d. ''d'')\<rparr>"

definition empty_world :: "(real, int) world" where
  "empty_world = \<lparr>os = [], gathers = [], filterData = Map.empty\<rparr>"

text \<open>The example configuration with both example variables in the table.\<close>

definition example_table :: Parameters where
  "example_table =
     example_params\<lparr>variables :=
       [\<lparr>variable_p = example_variable, levels = []\<rparr>,
        \<lparr>variable_p = example_flag, levels = []\<rparr>]\<rparr>"

text \<open>
  An observation space whose variables have the element type named by their group, and a
  state whose filter data holds one column of each kind, with the missing value of the
  type at position 0. The stream output of a floating-point number shows the notation
  and the precision it was given.
\<close>

definition cells_env :: "(real, int) ObsEnv" where
  "cells_env =
     example_env\<lparr>dtype := (\<lambda>v. if group v = ''QC'' then Bool
                              else if group v = ''F'' then Float
                              else if group v = ''S'' then String
                              else if group v = ''T'' then DateTime
                              else if group v = ''N'' then Integer
                              else Other),
                  show_float := (\<lambda>sci prec x. (if sci then ''e'' else ''f'') @ show_int prec)\<rparr>"

definition cell_variable :: "string \<Rightarrow> Variable" where
  "cell_variable g =
     \<lparr>group = g, variable = (\<lambda>i. ''x''), channels = [], var_size = 1, fullName = g @ ''/x''\<rparr>"

definition example_cells :: "(real, int) world" where
  "example_cells =
     \<lparr>os = [], gathers = [],
      filterData =
        [''N/x'' \<mapsto> IntCol [- 2147483643, 3],
         ''F/x'' \<mapsto> FloatCol [- 1, 5 / 2],
         ''S/x'' \<mapsto> StringCol [''MISSING'', ''ab''],
         ''T/x'' \<mapsto> DateTimeCol [0, 5],
         ''QC/x'' \<mapsto> IntCol [1, 0],
         ''F/x (level 2)'' \<mapsto> FloatCol [- 1, 5 / 2]]\<rparr>"

text \<open>
  Worker 0 of the example in the comments of \<^verbatim>\<open>printAllData\<close>: it holds the original rows
  2 and 4, the other worker the rows 1 and 3, and the mask selects every row. The gather
  appends the other worker's part.
\<close>

definition scenario_env :: "(real, int) ObsEnv" where
  "scenario_env =
     example_env\<lparr>ints := \<lparr>data_get = (\<lambda>v. []), get_db = (\<lambda>g n. None),
                             allGatherv = (\<lambda>xs. xs @ (if xs = [2, 4] then [1, 3] else [1, 1]))\<rparr>,
                  globalNumLocs := 4, index := [2, 4]\<rparr>"

subsection \<open>The names that set the width of the name column\<close>

text \<open>
  The names whose length \<^verbatim>\<open>getMaxVariableNameLength\<close> takes into account, in the words of
  the amended claim: for a variable of a multi-level group the names of its levels that
  are in the filter data; for any other variable without channels its full name; for a
  variable with channels the display key of every channel, in the filter data or not.
  The heading ``Location'' is the ninth character count to beat.
\<close>

definition counted_names :: "Parameters \<Rightarrow> ('f, 'd) world \<Rightarrow> string list" where
  "counted_names params w =
     concat (map (\<lambda>variableParams.
        let v = variable_p variableParams
        in if isMultiLevelData v
           then filter (\<lambda>name. filterData w name \<noteq> None)
                  (map (getVariableNameAtLevel (fullName v)) (levels variableParams))
           else if length (channels v) = 0 then [fullName v]
           else map (getVariableNameWithChannel v) [0..<var_size v])
       (variables params))"

text \<open>A variable with a short display key, on three locations, in 72 characters of
  text.\<close>

definition short_variable :: Variable where
  "short_variable =
     \<lparr>group = ''A'', variable = (\<lambda>i. ''b''), channels = [], var_size = 1,
      fullName = ''A/b''\<rparr>"

definition short_table :: Parameters where
  "short_table =
     example_params\<lparr>maxTextWidth := 72, locmax := 0,
       variables := [\<lparr>variable_p = short_variable, levels = []\<rparr>]\<rparr>"

definition three_rows_env :: "(real, int) ObsEnv" where
  "three_rows_env =
     example_env\<lparr>ints := \<lparr>data_get = (\<lambda>v. [7, 8, 9]), get_db = (\<lambda>g n. None),
                             allGatherv = (\<lambda>xs. xs)\<rparr>,
                  globalNumLocs := 3, index := [0, 1, 2],
                  processWhere := [True, True, True]\<rparr>"

text \<open>The state after \<^verbatim>\<open>getAllData\<close> has gathered the short variable.\<close>

definition short_world :: "(real, int) world" where
  "short_world = snd (getAllData short_table three_rows_env empty_world)"

section \<open>Theorems\<close>

text \<open>
  C10. Display Key generation: for the field named "temperature" at level 3 the key is
  "temperature (level 3)"; for a variable of group "ObsValue" whose \<^verbatim>\<open>variable(2)\<close> is
  "airTemperature_2", the key of channel index 2 is "ObsValue/airTemperature_2".
\<close>

theorem display_key_examples:
  "getVariableNameAtLevel ''temperature'' 3 = ''temperature (level 3)'' \<and>
   (group v = ''ObsValue'' \<longrightarrow> variable v 2 = ''airTemperature_2'' \<longrightarrow>
      getVariableNameWithChannel v 2 = ''ObsValue/airTemperature_2'')"
  by (simp add: getVariableNameAtLevel_def getVariableNameWithChannel_def show_int_def
      digit_char_def)

theorem display_key_examples_witness:
  "getVariableNameAtLevel ''temperature'' 3 = ''temperature (level 3)'' \<and>
   getVariableNameWithChannel
     \<lparr>group = ''ObsValue'', variable = (\<lambda>i. ''airTemperature_'' @ show_nat i),
      channels = [0, 1, 2], var_size = 3, fullName = ''ObsValue/airTemperature''\<rparr> 2
     = ''ObsValue/airTemperature_2''"
  using display_key_examples
    [of "\<lparr>group = ''ObsValue'', variable = (\<lambda>i. ''airTemperature_'' @ show_nat i),
         channels = [0, 1, 2], var_size = 3, fullName = ''ObsValue/airTemperature''\<rparr>"]
  by (simp add: digit_char_def)

subsection \<open>The sort permutation\<close>

lemma insert_stable_insort_key:
  "insert_stable (\<lambda>a b. k a < k b) x ys = insort_key (k :: 'a \<Rightarrow> 'b::linorder) x ys"
  by (induction ys) (auto simp: not_less)

lemma stable_sort_sort_key:
  "stable_sort (\<lambda>a b. k a < k b) xs = sort_key (k :: 'a \<Rightarrow> 'b::linorder) xs"
proof -
  have "insert_stable (\<lambda>a b. k a < k b) = insort_key k"
    by (intro ext) (rule insert_stable_insort_key)
  then show ?thesis
    by (simp add: stable_sort_def sort_key_def)
qed

lemma sortIndices_sort_key:
  "sortIndices globalIndex nlocs = sort_key (\<lambda>p. globalIndex ! nat p) (map int [0..<nlocs])"
  unfolding sortIndices_def by (rule stable_sort_sort_key)

lemma sortIndices_stable:
  "filter (\<lambda>p. globalIndex ! nat p = k) (sortIndices globalIndex nlocs)
   = filter (\<lambda>p. globalIndex ! nat p = k) (map int [0..<nlocs])"
  unfolding sortIndices_sort_key by (rule sort_key_stable)

lemma set_sortIndices: "set (sortIndices globalIndex nlocs) = int ` {0..<nlocs}"
  by (simp add: sortIndices_sort_key)

lemma length_sortIndices: "length (sortIndices globalIndex nlocs) = nlocs"
  by (simp add: sortIndices_sort_key)

lemma distinct_sortIndices: "distinct (sortIndices globalIndex nlocs)"
  by (simp add: sortIndices_sort_key distinct_map)

lemma permutedGlobalIndex_ok:
  assumes "\<forall>idx\<in>set idxs. idx < length sortIdx"
    and "\<forall>p\<in>set sortIdx. 0 \<le> p \<and> p < int (length globalIndex)"
  shows "permutedGlobalIndex globalIndex sortIdx idxs
         = Inr (map (\<lambda>idx. globalIndex ! nat (sortIdx ! idx)) idxs)"
  using assms by (induction idxs) (auto simp: vec_at_def)

lemma permutedGlobalIndex_sortIndices:
  assumes "length globalIndex = nlocs"
  shows "permutedGlobalIndex globalIndex (sortIndices globalIndex nlocs) [0..<nlocs]
         = Inr (map (\<lambda>p. globalIndex ! nat p) (sortIndices globalIndex nlocs))"
proof -
  let ?s = "sortIndices globalIndex nlocs"
  have "permutedGlobalIndex globalIndex ?s [0..<nlocs]
        = Inr (map (\<lambda>idx. globalIndex ! nat (?s ! idx)) [0..<nlocs])"
    by (rule permutedGlobalIndex_ok) (auto simp: length_sortIndices set_sortIndices assms)
  also have "map (\<lambda>idx. globalIndex ! nat (?s ! idx)) [0..<nlocs]
             = map (\<lambda>p. globalIndex ! nat p) (map (\<lambda>idx. ?s ! idx) [0..<length ?s])"
    by (simp add: length_sortIndices)
  also have "\<dots> = map (\<lambda>p. globalIndex ! nat p) ?s"
    by (simp only: map_nth)
  finally show ?thesis .
qed

lemma mset_permuted:
  assumes "length globalIndex = nlocs"
  shows "mset (map (\<lambda>p. globalIndex ! nat p) (sortIndices globalIndex nlocs)) = mset globalIndex"
proof -
  have "mset (map (\<lambda>p. globalIndex ! nat p) (sortIndices globalIndex nlocs))
        = mset (map (\<lambda>p. globalIndex ! nat p) (map int [0..<nlocs]))"
    by (simp only: sortIndices_sort_key mset_map mset_sort)
  also have "map (\<lambda>p. globalIndex ! nat p) (map int [0..<nlocs]) = map ((!) globalIndex) [0..<length globalIndex]"
    by (simp add: assms comp_def)
  also have "\<dots> = globalIndex" by (rule map_nth)
  finally show ?thesis .
qed

lemma sorted_permuted:
  "sorted (map (\<lambda>p. globalIndex ! nat p) (sortIndices globalIndex nlocs))"
  by (simp add: sortIndices_sort_key)

text \<open>
  C3. For a gathered index with pairwise distinct entries (and as many entries as there
  are locations), the sort indices are a permutation of the positions \<open>0..N-1\<close>, the
  permuted index is read without leaving the vectors and is strictly ascending, and the
  sort indices are the stable sort of the positions by their index value: positions with
  the same index value keep their ascending order.
\<close>

theorem reconciler_permutation:
  assumes "distinct globalIndex" and "length globalIndex = nlocs"
  shows "distinct (sortIndices globalIndex nlocs) \<and>
         set (sortIndices globalIndex nlocs) = int ` {0..<nlocs} \<and>
         length (sortIndices globalIndex nlocs) = nlocs \<and>
         permutedGlobalIndex globalIndex (sortIndices globalIndex nlocs) [0..<nlocs]
           = Inr (map (\<lambda>p. globalIndex ! nat p) (sortIndices globalIndex nlocs)) \<and>
         sorted_wrt (<) (map (\<lambda>p. globalIndex ! nat p) (sortIndices globalIndex nlocs)) \<and>
         sortIndices globalIndex nlocs
           = sort_key (\<lambda>p. globalIndex ! nat p) (map int [0..<nlocs]) \<and>
         (\<forall>k. filter (\<lambda>p. globalIndex ! nat p = k) (sortIndices globalIndex nlocs)
                = filter (\<lambda>p. globalIndex ! nat p = k) (map int [0..<nlocs]))"
proof -
  have "distinct (map (\<lambda>p. globalIndex ! nat p) (sortIndices globalIndex nlocs))"
    using mset_permuted [OF assms(2)] assms(1) by (metis mset_eq_imp_distinct_iff)
  then have "sorted_wrt (<) (map (\<lambda>p. globalIndex ! nat p) (sortIndices globalIndex nlocs))"
    using sorted_permuted [of globalIndex nlocs] by (simp only: strict_sorted_iff)
  then show ?thesis
    by (intro conjI allI distinct_sortIndices set_sortIndices length_sortIndices
        permutedGlobalIndex_sortIndices [OF assms(2)] sortIndices_sort_key sortIndices_stable)
qed

theorem reconciler_permutation_witness:
  "distinct [2, 4, 1, 3 :: int] \<and> length [2, 4, 1, 3 :: int] = 4 \<and>
   sortIndices [2, 4, 1, 3] 4 = [2, 0, 3, 1] \<and>
   permutedGlobalIndex [2, 4, 1, 3] (sortIndices [2, 4, 1, 3] 4) [0..<4] = Inr [1, 2, 3, 4] \<and>
   sorted_wrt (<) (map (\<lambda>p. [2, 4, 1, 3 :: int] ! nat p) (sortIndices [2, 4, 1, 3] 4))"
proof -
  have d: "distinct [2, 4, 1, 3 :: int]" by simp
  have l: "length [2, 4, 1, 3 :: int] = 4" by simp
  have s: "sortIndices [2, 4, 1, 3] 4 = [2, 0, 3, 1]"
    by (simp add: sortIndices_def stable_sort_def upt_rec)
  note r = reconciler_permutation [OF d l]
  note p = r [THEN conjunct2, THEN conjunct2, THEN conjunct2, THEN conjunct1]
  note q = r [THEN conjunct2, THEN conjunct2, THEN conjunct2, THEN conjunct2, THEN conjunct1]
  show ?thesis
    using d l p q by (simp add: s)
qed

subsection \<open>The worked example of the source comments\<close>

text \<open>
  C1. Six original rows, rows 0 and 5 outside the time window, gathered index
  \<open>[2, 4, 1, 3]\<close>, every row selected by the mask, bounds 0 and 6. The sort indices are
  \<open>[2, 0, 3, 1]\<close> and the permuted index is \<open>[1, 2, 3, 4]\<close>, as the comments say. The
  selection loop then reads \<open>sortIndices[loc]\<close> with the original row number \<open>loc\<close>:
  it takes positions 0, 3 and 1 for rows 1, 2 and 3 and reads past the end of the four
  sort indices for row 4, instead of producing \<open>[1, 2, 3, 4]\<close> and \<open>[2, 0, 3, 1]\<close>.
\<close>

theorem worked_example_selection:
  "printAllData_locmin example_params 4 = 0 \<and> printAllData_locmax example_params 4 = 6 \<and>
   sortIndices [2, 4, 1, 3] 4 = [2, 0, 3, 1] \<and>
   permutedGlobalIndex [2, 4, 1, 3] (sortIndices [2, 4, 1, 3] 4) [0..<4] = Inr [1, 2, 3, 4] \<and>
   select_loop 0 6 [1, 1, 1, 1] [2, 0, 3, 1] [1, 2, 3, 4] [0..<3] ([], [])
     = Inr ([1, 2, 3], [0, 3, 1]) \<and>
   selectLocs 0 6 4 [1, 1, 1, 1] [2, 4, 1, 3] = Inl OutOfBounds \<and>
   selectLocs 0 6 4 [1, 1, 1, 1] [2, 4, 1, 3] \<noteq> Inr ([1, 2, 3, 4], [2, 0, 3, 1]) \<and>
   fst (printAllData_rows example_params scenario_env empty_world) = Inl OutOfBounds"
  by code_simp

text \<open>
  C2. The selection loop does leave the vectors: with one location whose original row
  number is 1 (row 0 was excluded upstream), a mask of length one and the bounds 0 and 5,
  the read \<open>sortIndices[loc]\<close> is at position 1 of a vector of length 1.
\<close>

theorem selection_reads_out_of_bounds:
  "length (sortIndices [1] 1) = 1 \<and>
   permutedGlobalIndex [1] (sortIndices [1] 1) [0..<1] = Inr [1] \<and>
   vec_at (sortIndices [1] 1) 1 = Inl OutOfBounds \<and>
   selectLocs 0 5 1 [1] [1] = Inl OutOfBounds"
  by (simp add: selectLocs_def sortIndices_def stable_sort_def vec_at_def upt_rec)

subsection \<open>The table rows\<close>

lemma cpp_div_max:
  assumes "b \<noteq> 0"
  shows "max (sgn a * sgn b * (\<bar>a\<bar> div \<bar>b\<bar>)) 1 = max 1 (a div (b::int))"
proof -
  consider "a = 0" | "0 < a" "0 < b" | "a < 0" "b < 0" | "0 < a" "b < 0" | "a < 0" "0 < b"
    using assms by linarith
  then show ?thesis
  proof cases
    case 1 then show ?thesis by simp
  next
    case 2 then show ?thesis by simp
  next
    case 3
    then have "\<bar>a\<bar> div \<bar>b\<bar> = a div b" by simp
    with 3 show ?thesis by simp
  next
    case 4
    then have "a div b \<le> 0" by (simp add: div_nonneg_neg_le0)
    moreover have "0 \<le> \<bar>a\<bar> div \<bar>b\<bar>" by (simp add: div_int_pos_iff)
    ultimately show ?thesis using 4 by simp
  next
    case 5
    then have "a div b \<le> 0" by (simp add: div_nonpos_pos_le0)
    moreover have "0 \<le> \<bar>a\<bar> div \<bar>b\<bar>" by (simp add: div_int_pos_iff)
    ultimately show ?thesis using 5 by simp
  qed
qed

lemma nlocsPerRow_spec:
  assumes "columnWidth params + 3 \<noteq> 0"
  shows "nlocsPerRow params maxVariableNameLength = Inr (spec_page_size params maxVariableNameLength)"
proof -
  have "spec_page_size params maxVariableNameLength
        = max 1 ((maxTextWidth params - maxVariableNameLength) div (columnWidth params + 3))"
    by (simp only: spec_page_size_def floor_divide_of_int_eq)
  with assms cpp_div_max [of "columnWidth params + 3" "maxTextWidth params - maxVariableNameLength"]
  show ?thesis
    by (simp add: nlocsPerRow_def cpp_div_def)
qed

lemma spec_page_size_pos: "1 \<le> spec_page_size params k"
  by (simp add: spec_page_size_def)

lemma length_concat_full:
  "list_all (\<lambda>r. int (length r) = n) rs \<Longrightarrow> int (length (concat rs)) = n * int (length rs)"
  by (induction rs) (auto simp: algebra_simps)

lemma length_concat_rows:
  assumes "rows \<noteq> []"
  shows "length (concat rows) = length (concat (butlast rows)) + length (last rows)"
proof -
  have "concat rows = concat (butlast rows @ [last rows])"
    using assms by simp
  then show ?thesis by (simp del: append_butlast_last_id)
qed

lemma rows_ok_full_iff:
  assumes "rows_ok n rows" and "1 \<le> n"
  shows "(int (length (concat rows)) mod n = 0) = (rows = [] \<or> int (length (last rows)) = n)"
proof (cases "rows = []")
  case True
  then show ?thesis by simp
next
  case False
  let ?l = "int (length (last rows))"
  from assms False have full: "list_all (\<lambda>r. int (length r) = n) (butlast rows)"
    and l: "1 \<le> ?l" "?l \<le> n"
    by (auto simp: rows_ok_def)
  have "int (length (concat rows)) = n * int (length (butlast rows)) + ?l"
    using length_concat_rows [OF False] length_concat_full [OF full] by simp
  then have "int (length (concat rows)) mod n = ?l mod n"
    by simp
  also have "(?l mod n = 0) = (?l = n)"
  proof (cases "?l = n")
    case True
    then show ?thesis by simp
  next
    case False
    with l have "?l mod n = ?l" by simp
    moreover from l have "?l \<noteq> 0" by linarith
    ultimately show ?thesis using False by simp
  qed
  finally show ?thesis using False by simp
qed

lemma rows_ok_new_row:
  assumes "rows_ok n rows" and "1 \<le> n" and "rows = [] \<or> int (length (last rows)) = n"
  shows "rows_ok n (rows @ [[x]])"
proof (cases "rows = []")
  case True
  with assms(2) show ?thesis by (simp add: rows_ok_def)
next
  case False
  have "list_all (\<lambda>r. int (length r) = n) (butlast rows @ [last rows])
             = (list_all (\<lambda>r. int (length r) = n) (butlast rows) \<and> int (length (last rows)) = n)"
    by (simp del: append_butlast_last_id)
  with False have "list_all (\<lambda>r. int (length r) = n) rows
             = (list_all (\<lambda>r. int (length r) = n) (butlast rows) \<and> int (length (last rows)) = n)"
    by simp
  with assms False show ?thesis by (simp add: rows_ok_def)
qed

lemma rows_ok_extend_row:
  assumes "rows_ok n rows" and "rows \<noteq> []" and "int (length (last rows)) \<noteq> n"
  shows "rows_ok n (butlast rows @ [last rows @ [x]])"
  using assms by (auto simp: rows_ok_def)

lemma push_back_last_new: "push_back_last (rows @ [[]]) x = Inr (rows @ [[x]])"
  by (cases rows) simp_all

lemma push_back_last_old:
  "rows \<noteq> [] \<Longrightarrow> push_back_last rows x = Inr (butlast rows @ [last rows @ [x]])"
  by (cases rows) simp_all

lemma concat_extend_row:
  "rows \<noteq> [] \<Longrightarrow> concat (butlast rows @ [last rows @ [x]]) = concat rows @ [x]"
proof -
  assume "rows \<noteq> []"
  then have "concat rows = concat (butlast rows @ [last rows])" by simp
  then show ?thesis by (simp del: append_butlast_last_id)
qed

lemma map_length_extend_row:
  "map length (butlast rows @ [last rows @ [x]])
   = butlast (map length rows) @ [Suc (last (map length rows))]" if "rows \<noteq> []"
  using that by (simp add: map_butlast last_map)

lemma map_length_last:
  "map length rl = map length ri \<Longrightarrow> rl \<noteq> [] \<Longrightarrow> length (last rl) = length (last ri)"
  by (metis last_map map_is_Nil_conv)

lemma paginate_loop_rows:
  assumes n: "1 \<le> n" and len: "length idxs = length locs"
  shows "k \<le> length locs \<Longrightarrow> rows_ok n rl \<Longrightarrow> rows_ok n ri \<Longrightarrow>
         concat rl = take k locs \<Longrightarrow> concat ri = take k idxs \<Longrightarrow> cnt = int k \<Longrightarrow>
         map length rl = map length ri \<Longrightarrow>
         \<exists>rl' ri'. paginate_loop n locs idxs [k..<length locs] (rl, ri, cnt) = Inr (rl', ri') \<and>
            rows_ok n rl' \<and> rows_ok n ri' \<and> concat rl' = locs \<and> concat ri' = idxs \<and>
            map length rl' = map length ri'"
proof (induction "length locs - k" arbitrary: k rl ri cnt)
  case 0
  then have "k = length locs" by simp
  with 0 len show ?case by simp
next
  case (Suc d)
  then have k: "k < length locs" by simp
  then have upt: "[k..<length locs] = k # [Suc k..<length locs]"
    by (simp add: upt_conv_Cons)
  have rd: "vec_at idxs (int k) = Inr (idxs ! k)" "vec_at locs (int k) = Inr (locs ! k)"
    using k len by (simp_all add: vec_at_def)
  have lk: "length (concat rl) = k" "length (concat ri) = k"
    using Suc.prems k len by simp_all
  have ne: "(rl = []) = (ri = [])"
    using Suc.prems(7) by (metis map_is_Nil_conv)
  have full: "(cnt mod n = 0) = (rl = [] \<or> int (length (last rl)) = n)"
    using rows_ok_full_iff [OF Suc.prems(2) n] lk Suc.prems(6) by simp
  have full': "(cnt mod n = 0) = (ri = [] \<or> int (length (last ri)) = n)"
    using rows_ok_full_iff [OF Suc.prems(3) n] lk Suc.prems(6) by simp
  have tk: "take (Suc k) locs = take k locs @ [locs ! k]" "take (Suc k) idxs = take k idxs @ [idxs ! k]"
    using k len by (simp_all add: take_Suc_conv_app_nth)
  show ?case
  proof (cases "cnt mod n = 0")
    case True
    have step: "paginate_loop n locs idxs [k..<length locs] (rl, ri, cnt)
          = paginate_loop n locs idxs [Suc k..<length locs]
              (rl @ [[locs ! k]], ri @ [[idxs ! k]], cnt + 1)"
      using n True Suc.prems(6) by (simp add: upt rd push_back_last_new del: upt_Suc)
    have "\<exists>rl' ri'. paginate_loop n locs idxs [Suc k..<length locs]
              (rl @ [[locs ! k]], ri @ [[idxs ! k]], cnt + 1) = Inr (rl', ri') \<and>
            rows_ok n rl' \<and> rows_ok n ri' \<and> concat rl' = locs \<and> concat ri' = idxs \<and>
            map length rl' = map length ri'"
    proof (rule Suc.hyps(1))
      show "d = length locs - Suc k" using Suc.hyps(2) by simp
      show "Suc k \<le> length locs" using k by simp
      show "rows_ok n (rl @ [[locs ! k]])"
        using rows_ok_new_row [OF Suc.prems(2) n] full True by simp
      show "rows_ok n (ri @ [[idxs ! k]])"
        using rows_ok_new_row [OF Suc.prems(3) n] full' True by simp
      show "concat (rl @ [[locs ! k]]) = take (Suc k) locs"
        using Suc.prems(4) tk by simp
      show "concat (ri @ [[idxs ! k]]) = take (Suc k) idxs"
        using Suc.prems(5) tk by simp
      show "cnt + 1 = int (Suc k)" using Suc.prems(6) by simp
      show "map length (rl @ [[locs ! k]]) = map length (ri @ [[idxs ! k]])"
        using Suc.prems(7) by simp
    qed
    with step show ?thesis by simp
  next
    case False
    with full full' have nel: "rl \<noteq> []" "ri \<noteq> []"
      and nfull: "int (length (last rl)) \<noteq> n" "int (length (last ri)) \<noteq> n"
      by simp_all
    let ?rl = "butlast rl @ [last rl @ [locs ! k]]"
    let ?ri = "butlast ri @ [last ri @ [idxs ! k]]"
    have step: "paginate_loop n locs idxs [k..<length locs] (rl, ri, cnt)
          = paginate_loop n locs idxs [Suc k..<length locs] (?rl, ?ri, cnt + 1)"
      using n False Suc.prems(6) nel
      by (simp add: upt rd push_back_last_old del: upt_Suc)
    have "\<exists>rl' ri'. paginate_loop n locs idxs [Suc k..<length locs]
              (?rl, ?ri, cnt + 1) = Inr (rl', ri') \<and>
            rows_ok n rl' \<and> rows_ok n ri' \<and> concat rl' = locs \<and> concat ri' = idxs \<and>
            map length rl' = map length ri'"
    proof (rule Suc.hyps(1))
      show "d = length locs - Suc k" using Suc.hyps(2) by simp
      show "Suc k \<le> length locs" using k by simp
      show "rows_ok n ?rl"
        by (rule rows_ok_extend_row [OF Suc.prems(2) nel(1) nfull(1)])
      show "rows_ok n ?ri"
        by (rule rows_ok_extend_row [OF Suc.prems(3) nel(2) nfull(2)])
      show "concat ?rl = take (Suc k) locs"
        using Suc.prems(4) tk concat_extend_row [OF nel(1)] by simp
      show "concat ?ri = take (Suc k) idxs"
        using Suc.prems(5) tk concat_extend_row [OF nel(2)] by simp
      show "cnt + 1 = int (Suc k)" using Suc.prems(6) by simp
      show "map length ?rl = map length ?ri"
        using Suc.prems(7) map_length_extend_row [OF nel(1)] map_length_extend_row [OF nel(2)]
        by simp
    qed
    with step show ?thesis by simp
  qed
qed

lemma paginate_rows:
  assumes "1 \<le> n" and "length idxs = length locs"
  shows "\<exists>rl ri. paginate n locs idxs = Inr (rl, ri) \<and>
            rows_ok n rl \<and> rows_ok n ri \<and> concat rl = locs \<and> concat ri = idxs \<and>
            map length rl = map length ri"
  unfolding paginate_def
  using paginate_loop_rows [OF assms, of 0 "[]" "[]" 0]
  by (simp add: rows_ok_def)

subsection \<open>The channel loop of getData\<close>

lemma getData_channels_os:
  "os (getData_channels wrap conv acc gather v ichs w)
   = os w @ concat (map (\<lambda>ich. not_present (getVariableNameWithChannel v ich))
                     (filter (\<lambda>ich. get_db acc (group v) (variable v ich) = None) ichs))"
  by (induction ichs arbitrary: w) (auto split: option.splits)

lemma getData_channels_gathers:
  "gathers (getData_channels wrap conv acc gather v ichs w)
   = gathers w @ map (\<lambda>ich. GatherColumn (getVariableNameWithChannel v ich))
                   (filter (\<lambda>ich. get_db acc (group v) (variable v ich) \<noteq> None) ichs)"
  by (induction ichs arbitrary: w) (auto split: option.splits)

lemma getData_channels_filterData:
  "filterData (getData_channels wrap conv acc gather v ichs w) k = filterData w k \<or>
   (\<exists>j\<in>set ichs. \<exists>col. getVariableNameWithChannel v j = k \<and>
       get_db acc (group v) (variable v j) = Some col \<and>
       filterData (getData_channels wrap conv acc gather v ichs w) k
         = Some (wrap (gather (conv col))))"
proof (induction ichs arbitrary: w)
  case Nil
  then show ?case by simp
next
  case (Cons i rest)
  show ?case
  proof (cases "get_db acc (group v) (variable v i)")
    case None
    with Cons [of "w\<lparr>os := os w @ not_present (getVariableNameWithChannel v i)\<rparr>"]
    show ?thesis by auto
  next
    case (Some col)
    let ?w = "w\<lparr>gathers := gathers w @ [GatherColumn (getVariableNameWithChannel v i)],
               filterData := (filterData w)
                 (getVariableNameWithChannel v i \<mapsto> wrap (gather (conv col)))\<rparr>"
    from Cons [of ?w] Some show ?thesis
      by (cases "getVariableNameWithChannel v i = k") auto
  qed
qed

lemma key_inj:
  "getVariableNameWithChannel v i = getVariableNameWithChannel v j \<Longrightarrow> variable v i = variable v j"
  by (simp add: getVariableNameWithChannel_def)

lemma getData_channels_miss:
  assumes "get_db acc (group v) (variable v ich) = None"
  shows "filterData (getData_channels wrap conv acc gather v ichs w) (getVariableNameWithChannel v ich)
         = filterData w (getVariableNameWithChannel v ich)"
  using getData_channels_filterData [of wrap conv acc gather v ichs w "getVariableNameWithChannel v ich"]
    assms
  by (auto dest: key_inj)

lemma getData_channels_hit:
  assumes "ich \<in> set ichs" and "get_db acc (group v) (variable v ich) = Some col"
  shows "filterData (getData_channels wrap conv acc gather v ichs w) (getVariableNameWithChannel v ich)
         = Some (wrap (gather (conv col)))"
  using assms
proof (induction ichs arbitrary: w)
  case Nil
  then show ?case by simp
next
  case (Cons i rest)
  show ?case
  proof (cases "ich \<in> set rest")
    case True
    with Cons show ?thesis by (auto split: option.splits)
  next
    case False
    with Cons.prems have i: "i = ich" by simp
    let ?k = "getVariableNameWithChannel v ich"
    let ?w = "w\<lparr>gathers := gathers w @ [GatherColumn ?k],
               filterData := (filterData w)(?k \<mapsto> wrap (gather (conv col)))\<rparr>"
    have step: "getData_channels wrap conv acc gather v (i # rest) w
                = getData_channels wrap conv acc gather v rest ?w"
      using i Cons.prems(2) by simp
    from getData_channels_filterData [of wrap conv acc gather v rest ?w ?k]
    have "filterData (getData_channels wrap conv acc gather v rest ?w) ?k
          = Some (wrap (gather (conv col)))"
      using Cons.prems(2) by (auto dest: key_inj)
    with step show ?thesis by simp
  qed
qed

lemma note_in_output:
  assumes "ich \<in> set ichs" and "P ich"
  shows "\<exists>pre post. concat (map f (filter P ichs)) = pre @ f ich @ post"
proof -
  from assms have "ich \<in> set (filter P ichs)" by simp
  then obtain xs ys where "filter P ichs = xs @ ich # ys"
    by (auto dest: split_list)
  then have "concat (map f (filter P ichs)) = concat (map f xs) @ f ich @ concat (map f ys)"
    by simp
  then show ?thesis by blast
qed

lemma example_keys:
  "getVariableNameWithChannel example_variable 0 = ''ObsValue/brightness_1''"
  "getVariableNameWithChannel example_variable 1 = ''ObsValue/brightness_2''"
  "getVariableNameWithChannel example_variable (Suc 0) = ''ObsValue/brightness_2''"
  by (simp_all add: getVariableNameWithChannel_def example_variable_def digit_char_def)

lemma example_fetch:
  "get_db (ints example_env) (group example_variable) (variable example_variable 0) = Some [250, 260]"
  "get_db (ints example_env) (group example_variable) (variable example_variable 1) = None"
  "get_db (ints example_env) (group example_variable) (variable example_variable (Suc 0)) = None"
  by (simp_all add: example_env_def example_variable_def digit_char_def)

text \<open>
  C7. For a variable with channels, when the fetch of one channel throws, \<^verbatim>\<open>getData\<close>
  (the template and the overload for \<^verbatim>\<open>bool\<close> alike) writes the note naming that
  channel's display key, leaves the entry of \<^verbatim>\<open>filterData_\<close> for that key as it was, makes
  no gather for it, and still gathers and stores every channel of the variable whose fetch
  succeeds.
\<close>

theorem missing_channel_is_skipped:
  assumes "channels v \<noteq> []" and "ich < var_size v"
    and "get_db acc (group v) (variable v ich) = None"
  shows "(\<exists>pre post. os (getData_gen wrap conv acc gather v w)
            = os w @ pre @ not_present (getVariableNameWithChannel v ich) @ post) \<and>
         filterData (getData_gen wrap conv acc gather v w) (getVariableNameWithChannel v ich)
           = filterData w (getVariableNameWithChannel v ich) \<and>
         GatherColumn (getVariableNameWithChannel v ich)
           \<notin> set (gathers (getData_gen wrap conv acc gather v w)) - set (gathers w) \<and>
         (\<forall>j col. j < var_size v \<longrightarrow> get_db acc (group v) (variable v j) = Some col \<longrightarrow>
            filterData (getData_gen wrap conv acc gather v w) (getVariableNameWithChannel v j)
              = Some (wrap (gather (conv col))) \<and>
            GatherColumn (getVariableNameWithChannel v j)
              \<in> set (gathers (getData_gen wrap conv acc gather v w)))"
proof -
  have g: "getData_gen wrap conv acc gather v w
           = getData_channels wrap conv acc gather v [0..<var_size v] w"
    using assms(1) by (simp add: getData_gen_def)
  have in_range: "ich \<in> set [0..<var_size v]" using assms(2) by simp
  have 1: "\<exists>pre post. os (getData_gen wrap conv acc gather v w)
            = os w @ pre @ not_present (getVariableNameWithChannel v ich) @ post"
    unfolding g getData_channels_os
    using note_in_output [OF in_range, of "\<lambda>i. get_db acc (group v) (variable v i) = None"
        "\<lambda>i. not_present (getVariableNameWithChannel v i)"] assms(3)
    by auto
  have 2: "filterData (getData_gen wrap conv acc gather v w) (getVariableNameWithChannel v ich)
           = filterData w (getVariableNameWithChannel v ich)"
    unfolding g by (rule getData_channels_miss [OF assms(3)])
  have 3: "GatherColumn (getVariableNameWithChannel v ich)
           \<notin> set (gathers (getData_gen wrap conv acc gather v w)) - set (gathers w)"
    unfolding g getData_channels_gathers using assms(3) by (auto dest: key_inj)
  have 4: "filterData (getData_gen wrap conv acc gather v w) (getVariableNameWithChannel v j)
              = Some (wrap (gather (conv col))) \<and>
            GatherColumn (getVariableNameWithChannel v j)
              \<in> set (gathers (getData_gen wrap conv acc gather v w))"
    if "j < var_size v" and "get_db acc (group v) (variable v j) = Some col" for j col
  proof -
    from that(1) have "j \<in> set [0..<var_size v]" by simp
    from getData_channels_hit [OF this that(2)] that show ?thesis
      unfolding g getData_channels_gathers by auto
  qed
  from 1 2 3 4 show ?thesis by blast
qed

theorem missing_channel_is_skipped_witness:
  "channels example_variable \<noteq> [] \<and> (1::nat) < var_size example_variable \<and>
   get_db (ints example_env) (group example_variable) (variable example_variable 1) = None \<and>
   (0::nat) < var_size example_variable \<and>
   get_db (ints example_env) (group example_variable) (variable example_variable 0)
     = Some [250, 260] \<and>
   (\<exists>pre post. os (getData IntCol (ints example_env) example_variable empty_world)
      = pre @ ''ObsValue/brightness_2 not present in filter data'' @ endl @ post) \<and>
   filterData (getData IntCol (ints example_env) example_variable empty_world)
     ''ObsValue/brightness_2'' = None \<and>
   filterData (getData IntCol (ints example_env) example_variable empty_world)
     ''ObsValue/brightness_1'' = Some (IntCol [250, 260])"
proof -
  have h1: "channels example_variable \<noteq> []" by (simp add: example_variable_def)
  have h2: "(1::nat) < var_size example_variable" by (simp add: example_variable_def)
  have h0: "(0::nat) < var_size example_variable" by (simp add: example_variable_def)
  have id: "allGatherv (ints example_env) = (\<lambda>xs. xs)" by (simp add: example_env_def)
  note t = missing_channel_is_skipped [OF h1 h2 example_fetch(2), of IntCol "\<lambda>xs. xs"
      "allGatherv (ints example_env)" empty_world]
  from t have a0: "\<exists>pre post. os (getData_gen IntCol (\<lambda>xs. xs) (ints example_env)
        (allGatherv (ints example_env)) example_variable empty_world)
      = os empty_world @ pre @ not_present (getVariableNameWithChannel example_variable 1) @ post"
    by blast
  have e: "os empty_world = []" by (simp add: empty_world_def)
  have np: "not_present (getVariableNameWithChannel example_variable 1)
            = ''ObsValue/brightness_2 not present in filter data'' @ endl"
    by (simp add: not_present_def example_keys)
  from a0 have a: "\<exists>pre post. os (getData IntCol (ints example_env) example_variable empty_world)
      = pre @ ''ObsValue/brightness_2 not present in filter data'' @ endl @ post"
    by (simp only: getData_def e np append_Nil append_assoc)
  from t have b: "filterData (getData IntCol (ints example_env) example_variable empty_world)
     ''ObsValue/brightness_2'' = None"
    by (simp add: getData_def example_keys empty_world_def)
  from t h0 example_fetch(1)
  have "filterData (getData IntCol (ints example_env) example_variable empty_world)
          (getVariableNameWithChannel example_variable 0)
        = Some (IntCol (allGatherv (ints example_env) [250, 260]))"
    unfolding getData_def by blast
  then have c: "filterData (getData IntCol (ints example_env) example_variable empty_world)
     ''ObsValue/brightness_1'' = Some (IntCol [250, 260])"
    by (simp add: example_keys id)
  from h1 h2 h0 example_fetch(1,2) a b c show ?thesis by blast
qed

text \<open>
  C6, as the code has it. For a variable with channels, \<^verbatim>\<open>getData\<close> makes one collective
  call for each channel whose fetch succeeds, in channel order, and none for a channel
  whose fetch throws: the sequence of gather calls is determined by which channels are
  present in the local store.
\<close>

theorem gather_calls_follow_present_channels:
  assumes "channels v \<noteq> []"
  shows "gathers (getData_gen wrap conv acc gather v w)
         = gathers w @ map (\<lambda>ich. GatherColumn (getVariableNameWithChannel v ich))
             (filter (\<lambda>ich. get_db acc (group v) (variable v ich) \<noteq> None) [0..<var_size v])"
  using assms by (simp add: getData_gen_def getData_channels_gathers)

theorem gather_calls_follow_present_channels_witness:
  "channels example_variable \<noteq> [] \<and>
   gathers (getData IntCol (ints example_env) example_variable empty_world)
     = [GatherColumn ''ObsValue/brightness_1'']"
proof -
  have h1: "channels example_variable \<noteq> []" by (simp add: example_variable_def)
  have vs: "[0..<var_size example_variable] = [0, 1]"
    by (simp add: example_variable_def upt_rec)
  from gather_calls_follow_present_channels [OF h1, of IntCol "\<lambda>xs. xs" "ints example_env"
      "allGatherv (ints example_env)" empty_world]
  have "gathers (getData IntCol (ints example_env) example_variable empty_world)
     = [GatherColumn ''ObsValue/brightness_1'']"
    by (simp add: getData_def vs example_fetch example_keys empty_world_def)
  with h1 show ?thesis by simp
qed

text \<open>
  C6, as stated, fails: for the variable with the channels 1 and 2, a worker whose store
  holds only \<open>brightness_1\<close> makes one gather call, a worker whose store holds both
  channels makes two.
\<close>

theorem gather_sequence_counterexample:
  "gathers (getData IntCol (ints example_env) example_variable empty_world)
     = [GatherColumn ''ObsValue/brightness_1''] \<and>
   gathers (getData IntCol ((ints example_env)\<lparr>get_db := \<lambda>g n. Some [250, 260]\<rparr>)
              example_variable empty_world)
     = [GatherColumn ''ObsValue/brightness_1'', GatherColumn ''ObsValue/brightness_2''] \<and>
   gathers (getData IntCol (ints example_env) example_variable empty_world)
     \<noteq> gathers (getData IntCol ((ints example_env)\<lparr>get_db := \<lambda>g n. Some [250, 260]\<rparr>)
              example_variable empty_world)"
  by (simp add: getData_def getData_gen_def example_variable_def example_env_def
      empty_world_def getVariableNameWithChannel_def digit_char_def upt_rec)

subsection \<open>The row bounds\<close>

lemma select_loop_empty_window:
  assumes "lmax \<le> lmin" and "\<forall>idx\<in>set idxs. idx < length permuted"
  shows "select_loop lmin lmax globalApply sortIdx permuted idxs acc = Inr acc"
  using assms(2)
proof (induction idxs)
  case Nil
  then show ?case by simp
next
  case (Cons idx rest)
  then have "vec_at permuted (int idx) = Inr (permuted ! idx)"
    by (simp add: vec_at_def)
  moreover have "\<not> (lmin \<le> permuted ! idx \<and> permuted ! idx < lmax)"
    using assms(1) by linarith
  ultimately show ?case
    using Cons by (cases acc) auto
qed

lemma permutedGlobalIndex_length:
  "permutedGlobalIndex globalIndex sortIdx idxs = Inr permuted \<Longrightarrow> length permuted = length idxs"
  by (induction idxs arbitrary: permuted) (auto split: sum.splits)

lemma selectLocs_empty_window:
  assumes "lmax \<le> lmin" and "length globalIndex = nlocs"
  shows "selectLocs lmin lmax nlocs globalApply globalIndex = Inr ([], [])"
proof -
  let ?s = "sortIndices globalIndex nlocs"
  let ?p = "map (\<lambda>p. globalIndex ! nat p) ?s"
  have p: "permutedGlobalIndex globalIndex ?s [0..<nlocs] = Inr ?p"
    by (rule permutedGlobalIndex_sortIndices [OF assms(2)])
  have "\<forall>idx\<in>set [0..<nlocs]. idx < length ?p"
    by (simp add: length_sortIndices)
  from select_loop_empty_window [OF assms(1) this]
  show ?thesis by (simp add: selectLocs_def p)
qed

lemma paginate_nothing: "paginate n [] [] = Inr ([], [])"
  by (simp add: paginate_def)

text \<open>
  C5, as the code has it. When the configured minimum and maximum are equal, the value
  is not 0 (a maximum of 0 stands for the number of locations) and it is below the number
  of locations (a minimum at or above it is clamped to the last location), no row is
  selected: \<^verbatim>\<open>printAllData\<close> makes its two gathers, builds no table row, prints nothing
  and throws nothing. The column width is not -3 and the gathered index has one entry
  per location.
\<close>

theorem equal_bounds_select_nothing:
  assumes "locmin params = locmax params" and "locmax params \<noteq> 0"
    and "locmin params < int (globalNumLocs env)"
    and "columnWidth params + 3 \<noteq> 0"
    and "length (allGatherv (ints env) (map size_t_to_int (index env))) = globalNumLocs env"
  shows "printAllData_rows params env w
           = (Inr (getMaxVariableNameLength params w, [], []),
              w\<lparr>gathers := gathers w @ [GatherApply, GatherIndex]\<rparr>) \<and>
         printAllData params env w
           = (None, w\<lparr>gathers := gathers w @ [GatherApply, GatherIndex]\<rparr>)"
proof -
  have b: "printAllData_locmin params (globalNumLocs env) = locmin params"
    "printAllData_locmax params (globalNumLocs env) = locmin params"
    using assms(1-3) by (simp_all add: printAllData_locmin_def printAllData_locmax_def)
  obtain n where n: "nlocsPerRow params (getMaxVariableNameLength params w) = Inr n"
    using nlocsPerRow_spec [OF assms(4)] by blast
  have r: "printAllData_rows params env w
           = (Inr (getMaxVariableNameLength params w, [], []),
              w\<lparr>gathers := gathers w @ [GatherApply, GatherIndex]\<rparr>)"
    by (simp add: printAllData_rows_def Let_def b n selectLocs_empty_window [OF order_refl assms(5)]
        paginate_nothing)
  then show ?thesis by (simp add: printAllData_def)
qed

theorem equal_bounds_select_nothing_witness:
  "locmin (example_table\<lparr>locmin := 1, locmax := 1\<rparr>) = locmax (example_table\<lparr>locmin := 1, locmax := 1\<rparr>) \<and>
   locmax (example_table\<lparr>locmin := 1, locmax := 1\<rparr>) \<noteq> 0 \<and>
   locmin (example_table\<lparr>locmin := 1, locmax := 1\<rparr>) < int (globalNumLocs example_env) \<and>
   columnWidth (example_table\<lparr>locmin := 1, locmax := 1\<rparr>) + 3 \<noteq> 0 \<and>
   length (allGatherv (ints example_env) (map size_t_to_int (index example_env))) = globalNumLocs example_env \<and>
   printAllData (example_table\<lparr>locmin := 1, locmax := 1\<rparr>) example_env empty_world
     = (None, empty_world\<lparr>gathers := [GatherApply, GatherIndex]\<rparr>)"
proof -
  let ?p = "example_table\<lparr>locmin := 1, locmax := 1\<rparr>"
  have h1: "locmin ?p = locmax ?p" by simp
  have h2: "locmax ?p \<noteq> 0" by simp
  have h3: "locmin ?p < int (globalNumLocs example_env)" by (simp add: example_env_def)
  have h4: "columnWidth ?p + 3 \<noteq> 0" by (simp add: example_table_def example_params_def)
  have h5: "length (allGatherv (ints example_env) (map size_t_to_int (index example_env)))
            = globalNumLocs example_env"
    by (simp add: example_env_def)
  have e: "gathers empty_world = []" by (simp add: empty_world_def)
  from equal_bounds_select_nothing [OF h1 h2 h3 h4 h5, of empty_world]
  have "printAllData ?p example_env empty_world
     = (None, empty_world\<lparr>gathers := [GatherApply, GatherIndex]\<rparr>)"
    by (simp add: e)
  with h1 h2 h3 h4 h5 show ?thesis by blast
qed

text \<open>
  C5, as stated, fails: with two locations and every row selected by the mask, the bounds
  \<open>min = max = 0\<close> select both rows, and the bounds \<open>min = max = 7\<close> select row 1.
\<close>

theorem equal_bounds_counterexample:
  "fst (printAllData_rows (example_params\<lparr>locmin := 0, locmax := 0\<rparr>) example_env empty_world)
     = Inr (8, [[0, 1]], [[0, 1]]) \<and>
   fst (printAllData_rows (example_params\<lparr>locmin := 7, locmax := 7\<rparr>) example_env empty_world)
     = Inr (8, [[1]], [[1]])"
  by code_simp

text \<open>
  C4, as the code has it. When the minimum after clamping is greater than the maximum
  after the substitution for 0, \<^verbatim>\<open>printAllData\<close> throws \<open>BadValue\<close> and leaves the state
  as it found it: none of its own gathers is made and nothing is printed. In
  \<^verbatim>\<open>doFilter\<close> this happens after \<^verbatim>\<open>getAllData\<close>, whose gathers and notes are in the state
  at the time of the error.
\<close>

theorem invalid_range_error:
  assumes "printAllData_locmin params (globalNumLocs env)
             > printAllData_locmax params (globalNumLocs env)"
  shows "printAllData params env w = (Some BadValue, w) \<and>
         doFilter params env w
           = (case getAllData params env (doFilter_preamble params env w) of
                (Some e, w1) \<Rightarrow> (Some e, w1)
              | (None, w1) \<Rightarrow> (Some BadValue, w1))"
proof -
  have "printAllData params env w' = (Some BadValue, w')" for w' :: "('a, 'b) world"
    using assms by (simp add: printAllData_def printAllData_rows_def Let_def)
  then show ?thesis
    by (simp add: doFilter_def split: prod.splits option.splits)
qed

theorem invalid_range_error_witness:
  "printAllData_locmin (example_table\<lparr>locmin := 1, locmax := - 1\<rparr>) (globalNumLocs example_env)
     > printAllData_locmax (example_table\<lparr>locmin := 1, locmax := - 1\<rparr>) (globalNumLocs example_env) \<and>
   printAllData (example_table\<lparr>locmin := 1, locmax := - 1\<rparr>) example_env empty_world
     = (Some BadValue, empty_world) \<and>
   fst (doFilter (example_table\<lparr>locmin := 1, locmax := - 1\<rparr>) example_env empty_world)
     = Some BadValue"
proof -
  let ?p = "example_table\<lparr>locmin := 1, locmax := - 1\<rparr>"
  have h: "printAllData_locmin ?p (globalNumLocs example_env)
           > printAllData_locmax ?p (globalNumLocs example_env)"
    by (simp add: printAllData_locmin_def printAllData_locmax_def example_env_def)
  have g: "fst (getAllData ?p example_env (doFilter_preamble ?p example_env empty_world)) = None"
    by code_simp
  note t = invalid_range_error [OF h, of empty_world]
  from t have a: "printAllData ?p example_env empty_world = (Some BadValue, empty_world)"
    by blast
  from t g have b: "fst (doFilter ?p example_env empty_world) = Some BadValue"
    by (auto split: prod.splits option.splits)
  from h a b show ?thesis by blast
qed

text \<open>
  C4, as stated, fails. With two locations, the bounds \<open>min = 1, max = 0\<close> and
  \<open>min = 5, max = 3\<close> raise no error; the bounds \<open>min = 1, max = -1\<close> raise
  \<open>BadValue\<close> after the columns of both variables have been gathered.
\<close>

theorem invalid_range_counterexample:
  "locmin (example_table\<lparr>locmin := 1, locmax := 0\<rparr>)
     > locmax (example_table\<lparr>locmin := 1, locmax := 0\<rparr>) \<and>
   fst (doFilter (example_table\<lparr>locmin := 1, locmax := 0\<rparr>) example_env empty_world) = None \<and>
   locmin (example_table\<lparr>locmin := 5, locmax := 3\<rparr>)
     > locmax (example_table\<lparr>locmin := 5, locmax := 3\<rparr>) \<and>
   fst (doFilter (example_table\<lparr>locmin := 5, locmax := 3\<rparr>) example_env empty_world) = None \<and>
   locmin (example_table\<lparr>locmin := 1, locmax := - 1\<rparr>)
     > locmax (example_table\<lparr>locmin := 1, locmax := - 1\<rparr>) \<and>
   fst (doFilter (example_table\<lparr>locmin := 1, locmax := - 1\<rparr>) example_env empty_world)
     = Some BadValue \<and>
   gathers (snd (doFilter (example_table\<lparr>locmin := 1, locmax := - 1\<rparr>) example_env empty_world))
     = [GatherColumn ''ObsValue/brightness_1'', GatherColumn ''QC/ok'']"
  by code_simp

subsection \<open>The width of the name column and the page size\<close>

lemma longer_max: "longer name m = max (int (length name)) m"
  by (simp add: longer_def)

lemma fold_longer_levels:
  "fold (\<lambda>level m. if filterData w (g level) = None then m else longer (g level) m) ls m
   = fold longer (filter (\<lambda>name. filterData w name \<noteq> None) (map g ls)) m"
  by (induction ls arbitrary: m) simp_all

lemma fold_longer_concat:
  "fold (\<lambda>x m. fold longer (F x) m) xs m = fold longer (concat (map F xs)) m"
  by (induction xs arbitrary: m) simp_all

lemma getMaxVariableNameLength_fold:
  "getMaxVariableNameLength params w = fold longer (counted_names params w) 8"
proof -
  let ?F = "\<lambda>variableParams.
          let v = variable_p variableParams
           in if isMultiLevelData v
              then filter (\<lambda>name. filterData w name \<noteq> None)
                     (map (getVariableNameAtLevel (fullName v)) (levels variableParams))
              else if length (channels v) = 0 then [fullName v]
              else map (getVariableNameWithChannel v) [0..<var_size v]"
  have eq: "(\<lambda>variableParams m.
        let v = variable_p variableParams
        in if isMultiLevelData v then
             fold (\<lambda>level m.
                let MultiLevelVariableName = getVariableNameAtLevel (fullName v) level
                in if filterData w MultiLevelVariableName = None then m
                   else longer MultiLevelVariableName m)
               (levels variableParams) m
           else if length (channels v) = 0 then longer (fullName v) m
           else fold (\<lambda>ich m. longer (getVariableNameWithChannel v ich) m) [0..<var_size v] m)
      = (\<lambda>variableParams m. fold longer (?F variableParams) m)"
    by (intro ext) (simp add: Let_def fold_longer_levels fold_map comp_def)
  have "getMaxVariableNameLength params w
             = fold (\<lambda>variableParams m. fold longer (?F variableParams) m) (variables params)
                 (int (length ''Location''))"
    by (simp only: getMaxVariableNameLength_def eq)
  also have "int (length ''Location'') = 8" by simp
  finally have "getMaxVariableNameLength params w
             = fold (\<lambda>variableParams m. fold longer (?F variableParams) m) (variables params) 8" .
  also have "\<dots> = fold longer (concat (map ?F (variables params))) 8"
    by (rule fold_longer_concat)
  finally show ?thesis
    unfolding counted_names_def .
qed

lemma fold_longer_Max:
  "fold longer names m = Max (set (m # map (\<lambda>name. int (length name)) names))"
proof -
  have "fold longer names m = fold max (map (\<lambda>name. int (length name)) names) m"
    by (induction names arbitrary: m) (simp_all add: longer_max)
  then show ?thesis by (simp only: Max.set_eq_fold)
qed

lemma getMaxVariableNameLength_Max:
  "getMaxVariableNameLength params w
   = Max (set (8 # map (\<lambda>name. int (length name)) (counted_names params w)))"
  by (simp only: getMaxVariableNameLength_fold fold_longer_Max)

lemma select_loop_lengths:
  "select_loop lmin lmax globalApply sortIdx permuted idxs (ls, is) = Inr (ls', is') \<Longrightarrow>
   length is = length ls \<Longrightarrow> length is' = length ls'"
proof (induction idxs arbitrary: ls "is")
  case Nil
  then show ?case by simp
next
  case (Cons idx rest)
  note run = Cons.prems(1) and l = Cons.prems(2)
  show ?case
  proof (cases "vec_at permuted (int idx)")
    case (Inl e)
    with run show ?thesis by simp
  next
    case loc: (Inr loc)
    show ?thesis
    proof (cases "loc \<ge> lmin \<and> loc < lmax")
      case False
      with run loc have "select_loop lmin lmax globalApply sortIdx permuted rest (ls, is)
                         = Inr (ls', is')"
        by simp
      then show ?thesis using l by (rule Cons.IH)
    next
      case True
      show ?thesis
      proof (cases "vec_at sortIdx loc")
        case (Inl e)
        with run loc True show ?thesis by simp
      next
        case p: (Inr p)
        show ?thesis
        proof (cases "vec_at globalApply p")
          case (Inl e)
          with run loc True p show ?thesis by simp
        next
          case a: (Inr a)
          show ?thesis
          proof (cases "a \<noteq> 0")
            case True
            with run loc \<open>loc \<ge> lmin \<and> loc < lmax\<close> p a
            have "select_loop lmin lmax globalApply sortIdx permuted rest
                    (ls @ [loc], is @ [p]) = Inr (ls', is')"
              by simp
            moreover have "length (is @ [p]) = length (ls @ [loc])" using l by simp
            ultimately show ?thesis by (rule Cons.IH)
          next
            case False
            with run loc \<open>loc \<ge> lmin \<and> loc < lmax\<close> p a
            have "select_loop lmin lmax globalApply sortIdx permuted rest (ls, is)
                    = Inr (ls', is')"
              by simp
            then show ?thesis using l by (rule Cons.IH)
          qed
        qed
      qed
    qed
  qed
qed

lemma selectLocs_lengths:
  assumes "selectLocs lmin lmax nlocs globalApply globalIndex = Inr (ls, is)"
  shows "length is = length ls"
proof -
  let ?s = "sortIndices globalIndex nlocs"
  obtain permuted where p: "permutedGlobalIndex globalIndex ?s [0..<nlocs] = Inr permuted"
    using assms by (cases "permutedGlobalIndex globalIndex ?s [0..<nlocs]")
      (simp_all add: selectLocs_def)
  with assms have "select_loop lmin lmax globalApply ?s permuted [0..<nlocs] ([], []) = Inr (ls, is)"
    by (simp add: selectLocs_def)
  then show ?thesis by (rule select_loop_lengths) simp
qed

lemma nlocsPerRow_Inr:
  assumes "nlocsPerRow params m = Inr n"
  shows "columnWidth params + 3 \<noteq> 0 \<and> n = spec_page_size params m"
proof -
  from assms have nz: "columnWidth params + 3 \<noteq> 0"
    by (auto simp: nlocsPerRow_def cpp_div_def split: if_splits)
  with assms nlocsPerRow_spec [OF nz, of m] show ?thesis by simp
qed

lemma printAllData_rows_Inr:
  assumes "printAllData_rows params env w = (Inr (m, rl, ri), w')"
  shows "m = getMaxVariableNameLength params w \<and>
         (\<exists>n ls is. nlocsPerRow params m = Inr n \<and> length is = length ls \<and>
             paginate n ls is = Inr (rl, ri))"
  using assms
  by (auto simp: printAllData_rows_def Let_def split: if_splits sum.splits prod.splits
      dest: selectLocs_lengths)

lemma rows_ok_pages:
  assumes "rows_ok n rows" and "1 \<le> n"
  shows "list_all (\<lambda>page. int (length page) = n) (butlast rows) \<and>
         list_all (\<lambda>page. 1 \<le> length page \<and> int (length page) \<le> n) rows"
proof (cases "rows = []")
  case True
  then show ?thesis by simp
next
  case False
  with assms(1) have full: "list_all (\<lambda>page. int (length page) = n) (butlast rows)"
    and l: "1 \<le> length (last rows)" "int (length (last rows)) \<le> n"
    by (auto simp: rows_ok_def)
  have "list_all (\<lambda>page. 1 \<le> length page \<and> int (length page) \<le> n) (butlast rows @ [last rows])"
    using full l assms(2) by (auto simp: list_all_iff simp del: append_butlast_last_id)
  with False have "list_all (\<lambda>page. 1 \<le> length page \<and> int (length page) \<le> n) rows"
    by simp
  with full show ?thesis by simp
qed

lemma short_run:
  "fst (printAllData_rows short_table three_rows_env short_world)
   = Inr (8, [[0, 1], [2]], [[0, 1], [2]])"
  unfolding short_world_def by code_simp

lemma short_names:
  "counted_names short_table short_world = [''A/b'']"
  "filterData short_world ''A/b'' = Some (IntCol [7, 8, 9])"
  "getVariableNameWithChannel short_variable 0 = ''A/b''"
  unfolding short_world_def by code_simp+

lemma short_sizes:
  "spec_page_size short_table 8 = 2" "spec_page_size short_table 3 = 3"
  "columnWidth short_table + 3 \<noteq> 0"
  by (simp_all add: spec_page_size_def short_table_def example_params_def)

text \<open>
  C8, as the code has it. The page size is
  \<open>max(1, floor((maxTextWidth - nameWidth) / (columnWidth + 3)))\<close>, where \<open>nameWidth\<close> is
  the value of \<^verbatim>\<open>getMaxVariableNameLength\<close>: the largest of 8, the length of the heading
  ``Location'', and the lengths of the counted names (the full name of every configured
  variable without channels, the display key of every declared channel, and the names of
  the levels that are in the filter data). When the column width is not -3, every
  non-empty list of selected rows is grouped, in order, into table rows of exactly that
  size, except that the last one may be shorter; and whenever \<^verbatim>\<open>printAllData\<close> gets as
  far as its table rows, they have this shape, each with at least one entry and at most
  the page size.
\<close>

theorem page_sizes_from_name_column:
  "getMaxVariableNameLength params w
     = Max (set (8 # map (\<lambda>name. int (length name)) (counted_names params w))) \<and>
   (columnWidth params + 3 \<noteq> 0 \<longrightarrow> locsToPrint \<noteq> [] \<longrightarrow>
    length indicesToPrint = length locsToPrint \<longrightarrow>
      (\<exists>rowOfLocs rowOfIndices.
         nlocsPerRow params (getMaxVariableNameLength params w)
           = Inr (spec_page_size params (getMaxVariableNameLength params w)) \<and>
         paginate (spec_page_size params (getMaxVariableNameLength params w))
             locsToPrint indicesToPrint
           = Inr (rowOfLocs, rowOfIndices) \<and>
         concat rowOfLocs = locsToPrint \<and> concat rowOfIndices = indicesToPrint \<and>
         map length rowOfIndices = map length rowOfLocs \<and>
         rowOfLocs \<noteq> [] \<and>
         list_all (\<lambda>page. int (length page)
                      = spec_page_size params (getMaxVariableNameLength params w))
           (butlast rowOfLocs) \<and>
         list_all (\<lambda>page. 1 \<le> length page \<and>
                     int (length page)
                       \<le> spec_page_size params (getMaxVariableNameLength params w))
           rowOfLocs)) \<and>
   (printAllData_rows params env w = (Inr (m, rl, ri), w') \<longrightarrow>
      m = getMaxVariableNameLength params w \<and>
      nlocsPerRow params m = Inr (spec_page_size params m) \<and>
      map length ri = map length rl \<and>
      list_all (\<lambda>page. int (length page) = spec_page_size params m) (butlast rl) \<and>
      list_all (\<lambda>page. 1 \<le> length page \<and> int (length page) \<le> spec_page_size params m) rl)"
proof (intro conjI impI)
  show "getMaxVariableNameLength params w
     = Max (set (8 # map (\<lambda>name. int (length name)) (counted_names params w)))"
    by (rule getMaxVariableNameLength_Max)
next
  let ?n = "spec_page_size params (getMaxVariableNameLength params w)"
  assume nz: "columnWidth params + 3 \<noteq> 0" and ne: "locsToPrint \<noteq> []"
    and len: "length indicesToPrint = length locsToPrint"
  have n: "1 \<le> ?n" by (rule spec_page_size_pos)
  obtain rl ri where p: "paginate ?n locsToPrint indicesToPrint = Inr (rl, ri)"
    and ok: "rows_ok ?n rl" and c: "concat rl = locsToPrint" "concat ri = indicesToPrint"
    and sh: "map length rl = map length ri"
    using paginate_rows [OF n len] by blast
  from c(1) ne have rne: "rl \<noteq> []" by auto
  note pages = rows_ok_pages [OF ok n]
  from p c sh rne pages nlocsPerRow_spec [OF nz, of "getMaxVariableNameLength params w"]
  show "\<exists>rowOfLocs rowOfIndices.
         nlocsPerRow params (getMaxVariableNameLength params w) = Inr ?n \<and>
         paginate ?n locsToPrint indicesToPrint = Inr (rowOfLocs, rowOfIndices) \<and>
         concat rowOfLocs = locsToPrint \<and> concat rowOfIndices = indicesToPrint \<and>
         map length rowOfIndices = map length rowOfLocs \<and>
         rowOfLocs \<noteq> [] \<and>
         list_all (\<lambda>page. int (length page) = ?n) (butlast rowOfLocs) \<and>
         list_all (\<lambda>page. 1 \<le> length page \<and> int (length page) \<le> ?n) rowOfLocs"
    by auto
next
  assume run: "printAllData_rows params env w = (Inr (m, rl, ri), w')"
  from printAllData_rows_Inr [OF run] obtain n ls "is" where
    m: "m = getMaxVariableNameLength params w" and pr: "nlocsPerRow params m = Inr n"
    and len: "length is = length ls" and p: "paginate n ls is = Inr (rl, ri)"
    by blast
  from nlocsPerRow_Inr [OF pr] have n: "n = spec_page_size params m" by simp
  have pos: "1 \<le> n" unfolding n by (rule spec_page_size_pos)
  from paginate_rows [OF pos len] p have ok: "rows_ok n rl" and sh: "map length rl = map length ri"
    by auto
  note pages = rows_ok_pages [OF ok pos]
  show "m = getMaxVariableNameLength params w" by (rule m)
  show "nlocsPerRow params m = Inr (spec_page_size params m)" using pr n by simp
  show "map length ri = map length rl" using sh by simp
  show "list_all (\<lambda>page. int (length page) = spec_page_size params m) (butlast rl)"
    using pages n by simp
  show "list_all (\<lambda>page. 1 \<le> length page \<and> int (length page) \<le> spec_page_size params m) rl"
    using pages n by simp
qed

theorem page_sizes_from_name_column_witness:
  "columnWidth short_table + 3 \<noteq> 0 \<and> [0, 1, 2 :: int] \<noteq> [] \<and>
   length [0, 1, 2 :: int] = length [0, 1, 2 :: int] \<and>
   printAllData_rows short_table three_rows_env short_world
     = (Inr (8, [[0, 1], [2]], [[0, 1], [2]]),
        snd (printAllData_rows short_table three_rows_env short_world)) \<and>
   getMaxVariableNameLength short_table short_world = 8 \<and>
   nlocsPerRow short_table 8 = Inr 2 \<and>
   paginate 2 [0, 1, 2] [0, 1, 2] = Inr ([[0, 1], [2]], [[0, 1], [2]]) \<and>
   list_all (\<lambda>page. int (length page) = 2) (butlast [[0, 1], [2 :: int]]) \<and>
   list_all (\<lambda>page. 1 \<le> length page \<and> int (length page) \<le> 2) [[0, 1], [2 :: int]]"
proof -
  let ?w' = "snd (printAllData_rows short_table three_rows_env short_world)"
  have h1: "columnWidth short_table + 3 \<noteq> 0" by (rule short_sizes)
  have h2: "[0, 1, 2 :: int] \<noteq> []" by simp
  have h3: "length [0, 1, 2 :: int] = length [0, 1, 2 :: int]" by simp
  have h4: "printAllData_rows short_table three_rows_env short_world
              = (Inr (8, [[0, 1], [2]], [[0, 1], [2]]), ?w')"
    using short_run by (simp add: prod_eq_iff)
  note t = page_sizes_from_name_column [of short_table short_world "[0, 1, 2]" "[0, 1, 2]"
      three_rows_env 8 "[[0, 1], [2]]" "[[0, 1], [2]]" ?w']
  from t h4 have m: "getMaxVariableNameLength short_table short_world = 8"
    by simp
  from t h4 have r: "nlocsPerRow short_table 8 = Inr (spec_page_size short_table 8)"
    "list_all (\<lambda>page. int (length page) = spec_page_size short_table 8) (butlast [[0, 1], [2 :: int]])"
    "list_all (\<lambda>page. 1 \<le> length page \<and> int (length page) \<le> spec_page_size short_table 8)
       [[0, 1], [2 :: int]]"
    by blast+
  from t h1 h2 h3 obtain rowOfLocs rowOfIndices where
    "paginate (spec_page_size short_table (getMaxVariableNameLength short_table short_world))
        [0, 1, 2] [0, 1, 2] = Inr (rowOfLocs, rowOfIndices)"
    "concat rowOfLocs = [0, 1, 2]"
    by blast
  have e: "paginate 2 [0, 1, 2] [0, 1, 2] = Inr ([[0, 1], [2]], [[0, 1], [2]])"
    by (simp add: paginate_def vec_at_def upt_rec)
  from h1 h2 h3 h4 m r e show ?thesis
    by (simp only: short_sizes simp_thms)
qed

text \<open>
  C8, as stated, fails: with the single variable \<open>A/b\<close>, whose display key has 3
  characters, 72 characters of text and columns of width 20, the formula with the longest
  display key gives pages of 3 rows, while the code, which counts the heading ``Location'',
  prints the three selected rows in a page of 2 and a page of 1.
\<close>

theorem page_size_counterexample:
  "variables short_table = [\<lparr>variable_p = short_variable, levels = []\<rparr>] \<and>
   getVariableNameWithChannel short_variable 0 = ''A/b'' \<and>
   filterData short_world ''A/b'' = Some (IntCol [7, 8, 9]) \<and>
   int (length ''A/b'') = 3 \<and>
   spec_page_size short_table 3 = 3 \<and>
   fst (printAllData_rows short_table three_rows_env short_world)
     = Inr (8, [[0, 1], [2]], [[0, 1], [2]])"
proof -
  have "variables short_table = [\<lparr>variable_p = short_variable, levels = []\<rparr>]"
    by (simp add: short_table_def)
  then show ?thesis
    using short_names short_sizes short_run by simp
qed

subsection \<open>The cells of the table\<close>

lemma lookup_present: "filterData w varname = Some c \<Longrightarrow> lookup_or_insert varname w = (c, w)"
  by (simp add: lookup_or_insert_def)

lemma bool_to_int_range: "set (map bool_to_int bs) \<subseteq> {0, 1}"
  by (auto simp: bool_to_int_def)

lemma cell_ok:
  assumes "column_fits (dtype env v) col" and "filterData w varname = Some col"
    and "0 \<le> loc" and "nat loc < column_length col"
  shows "printVariable_dtype env params v varname loc w
         = (None, w\<lparr>os := os w @ setw_right (columnWidth params)
                     (spec_cell env params (dtype env v) col (nat loc))\<rparr>)"
  using assms
  by (cases "(dtype env v, col)" rule: column_fits.cases)
    (simp_all add: printVariable_dtype_def printVariable_def printVariable_float_def
      printVariable_bool_def lookup_present vec_at_def)

lemma print_cells_ok:
  assumes "\<And>idx w'. idx \<in> set idxGroup \<Longrightarrow> filterData w' = filterData w \<Longrightarrow>
             pv idx w' = (None, w'\<lparr>os := os w' @ cell idx\<rparr>)"
  shows "print_cells pv idxGroup w
         = (None, w\<lparr>os := os w @ concat (map (\<lambda>idx. cell idx @ '' | '') idxGroup)\<rparr>)"
  using assms
proof (induction idxGroup arbitrary: w)
  case Nil
  then show ?case by simp
next
  case (Cons idx rest)
  have 1: "pv idx w = (None, w\<lparr>os := os w @ cell idx\<rparr>)"
    by (rule Cons.prems) simp_all
  let ?w = "w\<lparr>os := os w @ cell idx @ '' | ''\<rparr>"
  have 2: "print_cells pv rest ?w
           = (None, ?w\<lparr>os := os ?w @ concat (map (\<lambda>idx. cell idx @ '' | '') rest)\<rparr>)"
    by (rule Cons.IH) (rule Cons.prems, simp_all)
  show ?case
    using 1 2 by simp
qed


lemma row_channels:
  assumes fits: "column_fits (dtype env v) col"
    and fd: "filterData w (getVariableNameWithChannel v ich) = Some col"
    and rng: "\<forall>idx\<in>set idxGroup. 0 \<le> idx \<and> nat idx < column_length col"
  shows "print_channels env params maxVariableNameLength v [ich] idxGroup w
         = (None, w\<lparr>os := os w
              @ setw_right maxVariableNameLength (getVariableNameWithChannel v ich) @ '' | ''
              @ concat (map (\<lambda>idx. setw_right (columnWidth params)
                                 (spec_cell env params (dtype env v) col (nat idx)) @ '' | '')
                          idxGroup)
              @ endl\<rparr>)"
proof -
  let ?k = "getVariableNameWithChannel v ich"
  let ?w = "w\<lparr>os := os w @ setw_right maxVariableNameLength ?k @ '' | ''\<rparr>"
  let ?cell = "\<lambda>idx. setw_right (columnWidth params)
                       (spec_cell env params (dtype env v) col (nat idx))"
  have "print_cells (printVariable_dtype env params v ?k) idxGroup ?w
        = (None, ?w\<lparr>os := os ?w @ concat (map (\<lambda>idx. ?cell idx @ '' | '') idxGroup)\<rparr>)"
  proof (rule print_cells_ok)
    fix idx and w' :: "('a, 'b) world"
    assume "idx \<in> set idxGroup" and "filterData w' = filterData ?w"
    with rng fd have "0 \<le> idx" "nat idx < column_length col" "filterData w' ?k = Some col"
      by simp_all
    with fits show "printVariable_dtype env params v ?k idx w'
                    = (None, w'\<lparr>os := os w' @ ?cell idx\<rparr>)"
      by (simp add: cell_ok)
  qed
  with fd show ?thesis by (simp add: Let_def)
qed

lemma float_cell_ok:
  assumes "filterData w varname = Some (FloatCol fvec)" and "0 \<le> loc" and "nat loc < length fvec"
  shows "printVariable_float env params varname loc w
         = (None, w\<lparr>os := os w @ setw_right (columnWidth params)
                     (spec_cell env params Float (FloatCol fvec) (nat loc))\<rparr>)"
  using assms
  by (simp add: printVariable_float_def printVariable_def lookup_present vec_at_def)

lemma row_levels:
  assumes fd: "filterData w (getVariableNameAtLevel (fullName v) level) = Some (FloatCol fvec)"
    and rng: "\<forall>idx\<in>set idxGroup. 0 \<le> idx \<and> nat idx < length fvec"
  shows "print_levels env params maxVariableNameLength v [level] idxGroup w
         = (None, w\<lparr>os := os w
              @ setw_right maxVariableNameLength (getVariableNameAtLevel (fullName v) level)
              @ '' | ''
              @ concat (map (\<lambda>idx. setw_right (columnWidth params)
                                 (spec_cell env params Float (FloatCol fvec) (nat idx)) @ '' | '')
                          idxGroup)
              @ endl\<rparr>)"
proof -
  let ?k = "getVariableNameAtLevel (fullName v) level"
  let ?w = "w\<lparr>os := os w @ setw_right maxVariableNameLength ?k @ '' | ''\<rparr>"
  let ?cell = "\<lambda>idx. setw_right (columnWidth params)
                       (spec_cell env params Float (FloatCol fvec) (nat idx))"
  have "print_cells (printVariable_float env params ?k) idxGroup ?w
        = (None, ?w\<lparr>os := os ?w @ concat (map (\<lambda>idx. ?cell idx @ '' | '') idxGroup)\<rparr>)"
  proof (rule print_cells_ok)
    fix idx and w' :: "('a, 'b) world"
    assume "idx \<in> set idxGroup" and "filterData w' = filterData ?w"
    with rng fd have "0 \<le> idx" "nat idx < length fvec" "filterData w' ?k = Some (FloatCol fvec)"
      by simp_all
    then show "printVariable_float env params ?k idx w' = (None, w'\<lparr>os := os w' @ ?cell idx\<rparr>)"
      by (simp add: float_cell_ok)
  qed
  with fd show ?thesis by (simp add: Let_def)
qed

lemma example_cells_simps:
  "filterData example_cells ''N/x'' = Some (IntCol [- 2147483643, 3])"
  "filterData example_cells ''F/x'' = Some (FloatCol [- 1, 5 / 2])"
  "filterData example_cells ''S/x'' = Some (StringCol [''MISSING'', ''ab''])"
  "filterData example_cells ''T/x'' = Some (DateTimeCol [0, 5])"
  "filterData example_cells ''QC/x'' = Some (IntCol [1, 0])"
  "filterData example_cells ''F/x (level 2)'' = Some (FloatCol [- 1, 5 / 2])"
  "os example_cells = []"
  by (simp_all add: example_cells_def)

lemma cells_env_simps:
  "dtype cells_env (cell_variable ''N'') = Integer"
  "dtype cells_env (cell_variable ''F'') = Float"
  "dtype cells_env (cell_variable ''S'') = String"
  "dtype cells_env (cell_variable ''T'') = DateTime"
  "dtype cells_env (cell_variable ''QC'') = Bool"
  "missing_int cells_env = - 2147483643" "missing_float cells_env = - 1"
  "missing_string cells_env = ''MISSING''" "missing_datetime cells_env = 0"
  "show_float cells_env False 3 = (\<lambda>x. ''f3'')"
  "show_datetime cells_env = (\<lambda>d. ''d'')"
  "columnWidth example_params = 20" "scientificNotation example_params = False"
  "floatPrecision example_params = 3"
  "allGatherv (ints cells_env) = (\<lambda>xs. xs)"
  "data_get (bools cells_env) = (\<lambda>v. [True, False])"
  "channels (cell_variable g) = []"
  "getVariableNameWithChannel (cell_variable g) i = g @ ''/x''"
  "fullName (cell_variable g) = g @ ''/x''"
  by (simp_all add: cells_env_def example_env_def cell_variable_def example_params_def
      getVariableNameWithChannel_def show_int_def digit_char_def)

lemma padded:
  "setw_right 20 ''missing'' = ''             missing''"
  "setw_right 20 ''f3'' = ''                  f3''"
  "setw_right 20 ''ab'' = ''                  ab''"
  "setw_right 20 (show_int 1) = ''                   1''"
  "setw_right 8 ''S/x'' = ''     S/x''"
  "setw_right 8 ''F/x (level 2)'' = ''F/x (level 2)''"
  by (simp_all add: setw_right_def show_int_def digit_char_def eval_nat_numeral)

text \<open>
  C9. In the table a cell of an integer, floating-point, text or date-time variable whose
  value equals the missing value of that type is the text ``missing'', padded on the left
  to the column width, whatever the precision and the notation; any other value is its
  stream output, for a floating-point number under the configured notation and precision,
  padded likewise; a cell of a flag is the padded decimal text of the stored integer,
  with no test for a missing value, and the stored integers are the gathered images 0 and
  1 of the flags. The cells of a multi-level variable are rendered as floating-point
  cells. A whole row of a channel or of a level is the padded name followed by these
  cells, each followed by the separator.
\<close>

theorem cell_rendering:
  "(dtype env v = Integer \<longrightarrow> filterData w varname = Some (IntCol ivec) \<longrightarrow>
    vec_at ivec loc = Inr ival \<longrightarrow>
      printVariable_dtype env params v varname loc w
        = (None, w\<lparr>os := os w @ setw_right (columnWidth params)
             (if ival = missing_int env then ''missing'' else show_int ival)\<rparr>)) \<and>
   (dtype env v = Float \<longrightarrow> filterData w varname = Some (FloatCol fvec) \<longrightarrow>
    vec_at fvec loc = Inr fval \<longrightarrow>
      printVariable_dtype env params v varname loc w
        = (None, w\<lparr>os := os w @ setw_right (columnWidth params)
             (if fval = missing_float env then ''missing''
              else show_float env (scientificNotation params) (floatPrecision params) fval)\<rparr>)) \<and>
   (dtype env v = String \<longrightarrow> filterData w varname = Some (StringCol svec) \<longrightarrow>
    vec_at svec loc = Inr sval \<longrightarrow>
      printVariable_dtype env params v varname loc w
        = (None, w\<lparr>os := os w @ setw_right (columnWidth params)
             (if sval = missing_string env then ''missing'' else sval)\<rparr>)) \<and>
   (dtype env v = DateTime \<longrightarrow> filterData w varname = Some (DateTimeCol dvec) \<longrightarrow>
    vec_at dvec loc = Inr dval \<longrightarrow>
      printVariable_dtype env params v varname loc w
        = (None, w\<lparr>os := os w @ setw_right (columnWidth params)
             (if dval = missing_datetime env then ''missing'' else show_datetime env dval)\<rparr>)) \<and>
   (dtype env v = Bool \<longrightarrow> filterData w varname = Some (IntCol bvec) \<longrightarrow>
    vec_at bvec loc = Inr bval \<longrightarrow>
      printVariable_dtype env params v varname loc w
        = (None, w\<lparr>os := os w @ setw_right (columnWidth params) (show_int bval)\<rparr>)) \<and>
   (filterData w varname = Some (FloatCol fvec) \<longrightarrow> vec_at fvec loc = Inr fval \<longrightarrow>
      printVariable_float env params varname loc w
        = (None, w\<lparr>os := os w @ setw_right (columnWidth params)
             (if fval = missing_float env then ''missing''
              else show_float env (scientificNotation params) (floatPrecision params) fval)\<rparr>)) \<and>
   (column_fits (dtype env v) col \<longrightarrow>
    filterData w (getVariableNameWithChannel v ich) = Some col \<longrightarrow>
    (\<forall>idx\<in>set idxGroup. 0 \<le> idx \<and> nat idx < column_length col) \<longrightarrow>
      print_channels env params maxVariableNameLength v [ich] idxGroup w
        = (None, w\<lparr>os := os w
             @ setw_right maxVariableNameLength (getVariableNameWithChannel v ich) @ '' | ''
             @ concat (map (\<lambda>idx. setw_right (columnWidth params)
                                (spec_cell env params (dtype env v) col (nat idx)) @ '' | '')
                         idxGroup)
             @ endl\<rparr>)) \<and>
   (filterData w (getVariableNameAtLevel (fullName v) level) = Some (FloatCol lvec) \<longrightarrow>
    (\<forall>idx\<in>set idxGroup. 0 \<le> idx \<and> nat idx < length lvec) \<longrightarrow>
      print_levels env params maxVariableNameLength v [level] idxGroup w
        = (None, w\<lparr>os := os w
             @ setw_right maxVariableNameLength (getVariableNameAtLevel (fullName v) level)
             @ '' | ''
             @ concat (map (\<lambda>idx. setw_right (columnWidth params)
                                (spec_cell env params Float (FloatCol lvec) (nat idx)) @ '' | '')
                         idxGroup)
             @ endl\<rparr>)) \<and>
   (channels v = [] \<longrightarrow>
      filterData (getData_bool env v w) (getVariableNameWithChannel v 0)
        = Some (IntCol (allGatherv (ints env) (map bool_to_int (data_get (bools env) v))))) \<and>
   set (map bool_to_int (data_get (bools env) v)) \<subseteq> {0, 1}"
proof (intro conjI impI)
  assume "dtype env v = Integer" "filterData w varname = Some (IntCol ivec)"
    "vec_at ivec loc = Inr ival"
  then show "printVariable_dtype env params v varname loc w
        = (None, w\<lparr>os := os w @ setw_right (columnWidth params)
             (if ival = missing_int env then ''missing'' else show_int ival)\<rparr>)"
    by (simp add: printVariable_dtype_def printVariable_def lookup_present)
next
  assume "dtype env v = Float" "filterData w varname = Some (FloatCol fvec)"
    "vec_at fvec loc = Inr fval"
  then show "printVariable_dtype env params v varname loc w
        = (None, w\<lparr>os := os w @ setw_right (columnWidth params)
             (if fval = missing_float env then ''missing''
              else show_float env (scientificNotation params) (floatPrecision params) fval)\<rparr>)"
    by (simp add: printVariable_dtype_def printVariable_float_def printVariable_def lookup_present)
next
  assume "dtype env v = String" "filterData w varname = Some (StringCol svec)"
    "vec_at svec loc = Inr sval"
  then show "printVariable_dtype env params v varname loc w
        = (None, w\<lparr>os := os w @ setw_right (columnWidth params)
             (if sval = missing_string env then ''missing'' else sval)\<rparr>)"
    by (simp add: printVariable_dtype_def printVariable_def lookup_present)
next
  assume "dtype env v = DateTime" "filterData w varname = Some (DateTimeCol dvec)"
    "vec_at dvec loc = Inr dval"
  then show "printVariable_dtype env params v varname loc w
        = (None, w\<lparr>os := os w @ setw_right (columnWidth params)
             (if dval = missing_datetime env then ''missing'' else show_datetime env dval)\<rparr>)"
    by (simp add: printVariable_dtype_def printVariable_def lookup_present)
next
  assume "dtype env v = Bool" "filterData w varname = Some (IntCol bvec)"
    "vec_at bvec loc = Inr bval"
  then show "printVariable_dtype env params v varname loc w
        = (None, w\<lparr>os := os w @ setw_right (columnWidth params) (show_int bval)\<rparr>)"
    by (simp add: printVariable_dtype_def printVariable_bool_def lookup_present)
next
  assume "filterData w varname = Some (FloatCol fvec)" "vec_at fvec loc = Inr fval"
  then show "printVariable_float env params varname loc w
        = (None, w\<lparr>os := os w @ setw_right (columnWidth params)
             (if fval = missing_float env then ''missing''
              else show_float env (scientificNotation params) (floatPrecision params) fval)\<rparr>)"
    by (simp add: printVariable_float_def printVariable_def lookup_present)
next
  assume "column_fits (dtype env v) col"
    "filterData w (getVariableNameWithChannel v ich) = Some col"
    "\<forall>idx\<in>set idxGroup. 0 \<le> idx \<and> nat idx < column_length col"
  then show "print_channels env params maxVariableNameLength v [ich] idxGroup w
        = (None, w\<lparr>os := os w
             @ setw_right maxVariableNameLength (getVariableNameWithChannel v ich) @ '' | ''
             @ concat (map (\<lambda>idx. setw_right (columnWidth params)
                                (spec_cell env params (dtype env v) col (nat idx)) @ '' | '')
                         idxGroup)
             @ endl\<rparr>)"
    by (rule row_channels)
next
  assume "filterData w (getVariableNameAtLevel (fullName v) level) = Some (FloatCol lvec)"
    "\<forall>idx\<in>set idxGroup. 0 \<le> idx \<and> nat idx < length lvec"
  then show "print_levels env params maxVariableNameLength v [level] idxGroup w
        = (None, w\<lparr>os := os w
             @ setw_right maxVariableNameLength (getVariableNameAtLevel (fullName v) level)
             @ '' | ''
             @ concat (map (\<lambda>idx. setw_right (columnWidth params)
                                (spec_cell env params Float (FloatCol lvec) (nat idx)) @ '' | '')
                         idxGroup)
             @ endl\<rparr>)"
    by (rule row_levels)
next
  assume "channels v = []"
  then show "filterData (getData_bool env v w) (getVariableNameWithChannel v 0)
        = Some (IntCol (allGatherv (ints env) (map bool_to_int (data_get (bools env) v))))"
    by (simp add: getData_bool_def getData_gen_def)
next
  show "set (map bool_to_int (data_get (bools env) v)) \<subseteq> {0, 1}"
    by (rule bool_to_int_range)
qed

theorem cell_rendering_witness:
  "printVariable_dtype cells_env example_params (cell_variable ''N'') ''N/x'' 0 example_cells
     = (None, example_cells\<lparr>os := ''             missing''\<rparr>) \<and>
   printVariable_dtype cells_env example_params (cell_variable ''F'') ''F/x'' 1 example_cells
     = (None, example_cells\<lparr>os := ''                  f3''\<rparr>) \<and>
   printVariable_dtype cells_env example_params (cell_variable ''S'') ''S/x'' 1 example_cells
     = (None, example_cells\<lparr>os := ''                  ab''\<rparr>) \<and>
   printVariable_dtype cells_env example_params (cell_variable ''T'') ''T/x'' 0 example_cells
     = (None, example_cells\<lparr>os := ''             missing''\<rparr>) \<and>
   printVariable_dtype cells_env example_params (cell_variable ''QC'') ''QC/x'' 0 example_cells
     = (None, example_cells\<lparr>os := ''                   1''\<rparr>) \<and>
   printVariable_float cells_env example_params ''F/x (level 2)'' 0 example_cells
     = (None, example_cells\<lparr>os := ''             missing''\<rparr>) \<and>
   print_channels cells_env example_params 8 (cell_variable ''S'') [0] [1, 0] example_cells
     = (None, example_cells\<lparr>os :=
          ''     S/x |                   ab |              missing | '' @ endl\<rparr>) \<and>
   print_levels cells_env example_params 8 (cell_variable ''F'') [2] [1, 0] example_cells
     = (None, example_cells\<lparr>os :=
          ''F/x (level 2) |                   f3 |              missing | '' @ endl\<rparr>) \<and>
   filterData (getData_bool cells_env (cell_variable ''QC'') example_cells) ''QC/x''
     = Some (IntCol [1, 0])"
proof -
  note c1 = cell_rendering [THEN conjunct1, rule_format]
  note c2 = cell_rendering [THEN conjunct2, THEN conjunct1, rule_format]
  note c3 = cell_rendering [THEN conjunct2, THEN conjunct2, THEN conjunct1, rule_format]
  note c4 = cell_rendering [THEN conjunct2, THEN conjunct2, THEN conjunct2, THEN conjunct1,
      rule_format]
  note c5 = cell_rendering [THEN conjunct2, THEN conjunct2, THEN conjunct2, THEN conjunct2,
      THEN conjunct1, rule_format]
  note c6 = cell_rendering [THEN conjunct2, THEN conjunct2, THEN conjunct2, THEN conjunct2,
      THEN conjunct2, THEN conjunct1, rule_format]
  note c7 = cell_rendering [THEN conjunct2, THEN conjunct2, THEN conjunct2, THEN conjunct2,
      THEN conjunct2, THEN conjunct2, THEN conjunct1, rule_format]
  note c8 = cell_rendering [THEN conjunct2, THEN conjunct2, THEN conjunct2, THEN conjunct2,
      THEN conjunct2, THEN conjunct2, THEN conjunct2, THEN conjunct1, rule_format]
  note c9 = cell_rendering [THEN conjunct2, THEN conjunct2, THEN conjunct2, THEN conjunct2,
      THEN conjunct2, THEN conjunct2, THEN conjunct2, THEN conjunct2, THEN conjunct1,
      rule_format]
  have e: "os example_cells = []" by (rule example_cells_simps)
  have "printVariable_dtype cells_env example_params (cell_variable ''N'') ''N/x'' 0 example_cells
     = (None, example_cells\<lparr>os := os example_cells @ setw_right (columnWidth example_params)
          (if (- 2147483643) = missing_int cells_env then ''missing''
           else show_int (- 2147483643))\<rparr>)"
    by (rule c1 [where ivec = "[- 2147483643, 3]"])
      (simp_all add: example_cells_simps cells_env_simps vec_at_def)
  then have a1: "printVariable_dtype cells_env example_params (cell_variable ''N'') ''N/x'' 0
      example_cells = (None, example_cells\<lparr>os := ''             missing''\<rparr>)"
    by (simp add: e cells_env_simps padded)
  have "printVariable_dtype cells_env example_params (cell_variable ''F'') ''F/x'' 1 example_cells
     = (None, example_cells\<lparr>os := os example_cells @ setw_right (columnWidth example_params)
          (if (5 / 2) = missing_float cells_env then ''missing''
           else show_float cells_env (scientificNotation example_params)
                  (floatPrecision example_params) (5 / 2))\<rparr>)"
    by (rule c2 [where fvec = "[- 1, 5 / 2]"])
      (simp_all add: example_cells_simps cells_env_simps vec_at_def)
  then have a2: "printVariable_dtype cells_env example_params (cell_variable ''F'') ''F/x'' 1
      example_cells = (None, example_cells\<lparr>os := ''                  f3''\<rparr>)"
    by (simp add: e cells_env_simps padded)
  have "printVariable_dtype cells_env example_params (cell_variable ''S'') ''S/x'' 1 example_cells
     = (None, example_cells\<lparr>os := os example_cells @ setw_right (columnWidth example_params)
          (if ''ab'' = missing_string cells_env then ''missing'' else ''ab'')\<rparr>)"
    by (rule c3 [where svec = "[''MISSING'', ''ab'']"])
      (simp_all add: example_cells_simps cells_env_simps vec_at_def)
  then have a3: "printVariable_dtype cells_env example_params (cell_variable ''S'') ''S/x'' 1
      example_cells = (None, example_cells\<lparr>os := ''                  ab''\<rparr>)"
    by (simp add: e cells_env_simps padded)
  have "printVariable_dtype cells_env example_params (cell_variable ''T'') ''T/x'' 0 example_cells
     = (None, example_cells\<lparr>os := os example_cells @ setw_right (columnWidth example_params)
          (if 0 = missing_datetime cells_env then ''missing''
           else show_datetime cells_env 0)\<rparr>)"
    by (rule c4 [where dvec = "[0, 5]"])
      (simp_all add: example_cells_simps cells_env_simps vec_at_def)
  then have a4: "printVariable_dtype cells_env example_params (cell_variable ''T'') ''T/x'' 0
      example_cells = (None, example_cells\<lparr>os := ''             missing''\<rparr>)"
    by (simp add: e cells_env_simps padded)
  have "printVariable_dtype cells_env example_params (cell_variable ''QC'') ''QC/x'' 0 example_cells
     = (None, example_cells\<lparr>os := os example_cells @ setw_right (columnWidth example_params)
          (show_int 1)\<rparr>)"
    by (rule c5 [where bvec = "[1, 0]"])
      (simp_all add: example_cells_simps cells_env_simps vec_at_def)
  then have a5: "printVariable_dtype cells_env example_params (cell_variable ''QC'') ''QC/x'' 0
      example_cells = (None, example_cells\<lparr>os := ''                   1''\<rparr>)"
    by (simp add: e cells_env_simps padded)
  have "printVariable_float cells_env example_params ''F/x (level 2)'' 0 example_cells
     = (None, example_cells\<lparr>os := os example_cells @ setw_right (columnWidth example_params)
          (if (- 1) = missing_float cells_env then ''missing''
           else show_float cells_env (scientificNotation example_params)
                  (floatPrecision example_params) (- 1))\<rparr>)"
    by (rule c6 [where fvec = "[- 1, 5 / 2]"])
      (simp_all add: example_cells_simps vec_at_def)
  then have a6: "printVariable_float cells_env example_params ''F/x (level 2)'' 0 example_cells
     = (None, example_cells\<lparr>os := ''             missing''\<rparr>)"
    by (simp add: e cells_env_simps padded)
  have "print_channels cells_env example_params 8 (cell_variable ''S'') [0] [1, 0] example_cells
     = (None, example_cells\<lparr>os := os example_cells
          @ setw_right 8 (getVariableNameWithChannel (cell_variable ''S'') 0) @ '' | ''
          @ concat (map (\<lambda>idx. setw_right (columnWidth example_params)
                (spec_cell cells_env example_params (dtype cells_env (cell_variable ''S''))
                   (StringCol [''MISSING'', ''ab'']) (nat idx)) @ '' | '') [1, 0])
          @ endl\<rparr>)"
    by (rule c7) (auto simp: example_cells_simps cells_env_simps)
  then have a7: "print_channels cells_env example_params 8 (cell_variable ''S'') [0] [1, 0]
      example_cells
     = (None, example_cells\<lparr>os :=
          ''     S/x |                   ab |              missing | '' @ endl\<rparr>)"
    by (simp add: e cells_env_simps padded)
  have "print_levels cells_env example_params 8 (cell_variable ''F'') [2] [1, 0] example_cells
     = (None, example_cells\<lparr>os := os example_cells
          @ setw_right 8 (getVariableNameAtLevel (fullName (cell_variable ''F'')) 2) @ '' | ''
          @ concat (map (\<lambda>idx. setw_right (columnWidth example_params)
                (spec_cell cells_env example_params Float (FloatCol [- 1, 5 / 2]) (nat idx))
                   @ '' | '') [1, 0])
          @ endl\<rparr>)"
    by (rule c8)
      (auto simp: example_cells_simps cells_env_simps getVariableNameAtLevel_def show_int_def
        digit_char_def)
  then have a8: "print_levels cells_env example_params 8 (cell_variable ''F'') [2] [1, 0]
      example_cells
     = (None, example_cells\<lparr>os :=
          ''F/x (level 2) |                   f3 |              missing | '' @ endl\<rparr>)"
    by (simp add: e cells_env_simps padded getVariableNameAtLevel_def show_int_def digit_char_def)
  have "filterData (getData_bool cells_env (cell_variable ''QC'') example_cells)
          (getVariableNameWithChannel (cell_variable ''QC'') 0)
        = Some (IntCol (allGatherv (ints cells_env)
            (map bool_to_int (data_get (bools cells_env) (cell_variable ''QC'')))))"
    by (rule c9) (simp add: cells_env_simps)
  then have a9: "filterData (getData_bool cells_env (cell_variable ''QC'') example_cells) ''QC/x''
     = Some (IntCol [1, 0])"
    by (simp add: cells_env_simps bool_to_int_def)
  from a1 a2 a3 a4 a5 a6 a7 a8 a9 show ?thesis by (intro conjI)
qed

end
